theory Spec2Isabelle
  imports Complex_Main "HOL-Library.Sublist"
begin

section \<open>Python values used by the feature extractor\<close>

text \<open>
  Exceptions are values.  Every \<^verbatim>\<open>try ... except Exception\<close> of the source catches
  all of them; \<^verbatim>\<open>except socket.gaierror\<close> catches only \<open>Gaierror\<close>.
\<close>

datatype exn =
    ValueError
  | KeyError
  | IndexError
  | AttributeError
  | TypeError
  | OSError
  | Gaierror
  | UnicodeError
  | RequestException
  | URLError
  | PywhoisError
  | ParserError
  | ModelError

type_synonym 'a result = "exn + 'a"

definition bind_result :: "'a result \<Rightarrow> ('a \<Rightarrow> 'b result) \<Rightarrow> 'b result" where
  "bind_result r f = (case r of Inl e \<Rightarrow> Inl e | Inr v \<Rightarrow> f v)"

text \<open>\<^verbatim>\<open>try: body  except Exception: return fallback\<close>\<close>

definition try_except :: "'a result \<Rightarrow> 'a \<Rightarrow> 'a result" where
  "try_except body fallback = (case body of Inl e \<Rightarrow> Inr fallback | Inr v \<Rightarrow> Inr v)"

subsection \<open>Strings\<close>

text \<open>
  A Python \<^verbatim>\<open>str\<close> is modelled as a \<open>string\<close>, one \<open>char\<close> per character, so
  \<^verbatim>\<open>len\<close> is \<open>length\<close>.
\<close>

definition ascii_lowercase :: string where
  "ascii_lowercase = ''abcdefghijklmnopqrstuvwxyz''"

definition ascii_uppercase :: string where
  "ascii_uppercase = ''ABCDEFGHIJKLMNOPQRSTUVWXYZ''"

definition digits :: string where
  "digits = ''0123456789''"

text \<open>
  The characters, up to U+00FF, for which \<^verbatim>\<open>str.isspace\<close> and the pattern \<^verbatim>\<open>\s\<close>
  hold.
\<close>

definition py_whitespace :: string where
  "py_whitespace = [CHR 0x20, CHR 0x09, CHR 0x0A, CHR 0x0B, CHR 0x0C, CHR 0x0D,
                    CHR 0x1C, CHR 0x1D, CHR 0x1E, CHR 0x1F, CHR 0x85, CHR 0xA0]"

text \<open>The characters for which C's \<^verbatim>\<open>isspace\<close> holds.\<close>

definition c_whitespace :: string where
  "c_whitespace = [CHR 0x20, CHR 0x09, CHR 0x0A, CHR 0x0B, CHR 0x0C, CHR 0x0D]"

text \<open>
  The characters, up to U+00FF, that \<^verbatim>\<open>int\<close> skips around a number: C's whitespace
  and the two spaces beyond ASCII.
\<close>

definition int_whitespace :: string where
  "int_whitespace = c_whitespace @ [CHR 0x85, CHR 0xA0]"

definition lower_char :: "char \<Rightarrow> char" where
  "lower_char c = (case map_of (zip ascii_uppercase ascii_lowercase) c of
                     None \<Rightarrow> c | Some l \<Rightarrow> l)"

text \<open>\<^verbatim>\<open>s.lower()\<close>\<close>

definition lower :: "string \<Rightarrow> string" where
  "lower s = map lower_char s"

text \<open>\<^verbatim>\<open>sub in s\<close>\<close>

fun str_in :: "string \<Rightarrow> string \<Rightarrow> bool" where
  "str_in sub [] = (sub = [])"
| "str_in sub (c # cs) = (prefix sub (c # cs) \<or> str_in sub cs)"

text \<open>\<^verbatim>\<open>s.find(sub, start)\<close>: the lowest index at or after \<open>start\<close>, or \<open>-1\<close>.\<close>

fun find_at :: "string \<Rightarrow> string \<Rightarrow> nat \<Rightarrow> int" where
  "find_at sub [] i = (if sub = [] then int i else -1)"
| "find_at sub (c # cs) i = (if prefix sub (c # cs) then int i else find_at sub cs (Suc i))"

definition py_find :: "string \<Rightarrow> string \<Rightarrow> int \<Rightarrow> int" where
  "py_find s sub start =
     (let st = (if start < 0 then nat (max 0 (int (length s) + start)) else nat start)
      in if st > length s then -1 else find_at sub (drop st s) st)"

text \<open>\<^verbatim>\<open>s.count(c)\<close> for a one-character \<open>c\<close>.\<close>

definition count_char :: "string \<Rightarrow> char \<Rightarrow> nat" where
  "count_char s c = length (filter (\<lambda>x. x = c) s)"

text \<open>\<^verbatim>\<open>s.strip(chars)\<close>\<close>

definition strip :: "string \<Rightarrow> string \<Rightarrow> string" where
  "strip chars s = rev (dropWhile (\<lambda>c. c \<in> set chars)
                          (rev (dropWhile (\<lambda>c. c \<in> set chars) s)))"

definition digit_val :: "char \<Rightarrow> int" where
  "digit_val c = (case map_of (zip ''0123456789abcdefABCDEF''
                      [0, 1, 2, 3, 4, 5, 6, 7, 8, 9, 10, 11, 12, 13, 14, 15, 10, 11, 12, 13, 14, 15]) c of
                    None \<Rightarrow> 0 | Some v \<Rightarrow> v)"

text \<open>The value of a string of digits in a base.\<close>

definition int_of_digits :: "int \<Rightarrow> string \<Rightarrow> int" where
  "int_of_digits base ds = foldl (\<lambda>n c. base * n + digit_val c) 0 ds"

text \<open>
  \<^verbatim>\<open>int(s)\<close> on a string: surrounding whitespace is skipped, one sign is allowed, the
  digits may be grouped by single underscores, and there are at most 4300 digits
  (the default of \<^verbatim>\<open>sys.set_int_max_str_digits\<close>).  Anything else raises
  \<^verbatim>\<open>ValueError\<close>.
\<close>

fun digit_groups :: "string \<Rightarrow> bool" where
  "digit_groups [] = False"
| "digit_groups [c] = (c \<in> set digits)"
| "digit_groups (c # d # cs) =
     (c \<in> set digits \<and>
      (if d = CHR ''_'' then digit_groups cs else digit_groups (d # cs)))"

definition py_int :: "string \<Rightarrow> int result" where
  "py_int s =
     (let t = strip int_whitespace s;
          neg = (t \<noteq> [] \<and> hd t = CHR ''-'');
          body = (if t \<noteq> [] \<and> (hd t = CHR ''-'' \<or> hd t = CHR ''+'') then tl t else t)
      in if digit_groups body \<and> length (filter (\<lambda>c. c \<noteq> CHR ''_'') body) \<le> 4300
         then (let n = int_of_digits 10 (filter (\<lambda>c. c \<noteq> CHR ''_'') body)
               in Inr (if neg then - n else n))
         else Inl ValueError)"

subsection \<open>Regular expressions\<close>

text \<open>
  The patterns handed to \<^verbatim>\<open>re.search\<close> use literals, character classes, the dot,
  alternation and repetition only, so whether a search succeeds is a question of the
  language of the pattern; it is decided with derivatives.
\<close>

datatype regex =
    Zero
  | One
  | Class "char list"
  | NotClass "char list"
  | Seq regex regex
  | Alt regex regex
  | Star regex

text \<open>\<^verbatim>\<open>.\<close> matches any character but a newline.\<close>

definition Dot :: regex where
  "Dot = NotClass [CHR 0x0A]"

definition Plus :: "regex \<Rightarrow> regex" where
  "Plus r = Seq r (Star r)"

fun Lit :: "string \<Rightarrow> regex" where
  "Lit [] = One"
| "Lit (c # cs) = Seq (Class [c]) (Lit cs)"

text \<open>A literal under \<^verbatim>\<open>re.IGNORECASE\<close>.\<close>

fun LitI :: "string \<Rightarrow> regex" where
  "LitI [] = One"
| "LitI (c # cs) =
     Seq (Class (remdups [c, lower_char c] @
            map fst (filter (\<lambda>(u, l). l = c) (zip ascii_uppercase ascii_lowercase))))
         (LitI cs)"

fun Alts :: "regex list \<Rightarrow> regex" where
  "Alts [] = Zero"
| "Alts [r] = r"
| "Alts (r # rs) = Alt r (Alts rs)"

fun nullable :: "regex \<Rightarrow> bool" where
  "nullable Zero = False"
| "nullable One = True"
| "nullable (Class cs) = False"
| "nullable (NotClass cs) = False"
| "nullable (Seq r s) = (nullable r \<and> nullable s)"
| "nullable (Alt r s) = (nullable r \<or> nullable s)"
| "nullable (Star r) = True"

fun deriv :: "char \<Rightarrow> regex \<Rightarrow> regex" where
  "deriv c Zero = Zero"
| "deriv c One = Zero"
| "deriv c (Class cs) = (if c \<in> set cs then One else Zero)"
| "deriv c (NotClass cs) = (if c \<in> set cs then Zero else One)"
| "deriv c (Seq r s) =
     (if nullable r then Alt (Seq (deriv c r) s) (deriv c s) else Seq (deriv c r) s)"
| "deriv c (Alt r s) = Alt (deriv c r) (deriv c s)"
| "deriv c (Star r) = Seq (deriv c r) (Star r)"

text \<open>\<^verbatim>\<open>re.match(r, s) is not None\<close>: some prefix of \<open>s\<close> is in the language of \<open>r\<close>.\<close>

fun re_match :: "regex \<Rightarrow> string \<Rightarrow> bool" where
  "re_match r [] = nullable r"
| "re_match r (c # cs) = (nullable r \<or> re_match (deriv c r) cs)"

text \<open>\<^verbatim>\<open>re.search(r, s) is not None\<close>: a match starts somewhere in \<open>s\<close>.\<close>

fun re_search :: "regex \<Rightarrow> string \<Rightarrow> bool" where
  "re_search r [] = nullable r"
| "re_search r (c # cs) = (re_match r (c # cs) \<or> re_search r cs)"

text \<open>
  \<^verbatim>\<open>len(re.findall(r, s))\<close> for a pattern whose matches begin with a character that
  occurs nowhere else in a match (here \<^verbatim>\<open><\<close>): the matches cannot overlap, so their
  number is the number of positions where one starts.
\<close>

fun findall_count :: "regex \<Rightarrow> string \<Rightarrow> nat" where
  "findall_count r [] = 0"
| "findall_count r (c # cs) = (if re_match r (c # cs) then 1 else 0) + findall_count r cs"

subsection \<open>\<^verbatim>\<open>socket.inet_aton\<close>\<close>

text \<open>\<^verbatim>\<open>s.split(c)\<close>\<close>

fun split_on :: "char \<Rightarrow> string \<Rightarrow> string list" where
  "split_on c [] = [[]]"
| "split_on c (x # xs) =
     (if x = c then [] # split_on c xs
      else (let r = split_on c xs in (x # hd r) # tl r))"

text \<open>
  One part of a dotted address, as C's \<^verbatim>\<open>strtoul(cp, &endp, 0)\<close> reads it: hexadecimal
  after \<^verbatim>\<open>0x\<close>, octal after a leading \<^verbatim>\<open>0\<close>, decimal otherwise.  The part starts
  with a digit, is read to its end, and its value fits 32 bits.
\<close>

definition aton_part :: "string \<Rightarrow> int option" where
  "aton_part p =
     (let v =
        (if p = [] then None
         else if take 2 p = ''0x'' \<or> take 2 p = ''0X''
         then (if drop 2 p \<noteq> [] \<and> list_all (\<lambda>c. c \<in> set ''0123456789abcdefABCDEF'') (drop 2 p)
               then Some (int_of_digits 16 (drop 2 p)) else None)
         else if hd p = CHR ''0''
         then (if list_all (\<lambda>c. c \<in> set ''01234567'') p
               then Some (int_of_digits 8 p) else None)
         else (if list_all (\<lambda>c. c \<in> set digits) p
               then Some (int_of_digits 10 p) else None))
      in case v of None \<Rightarrow> None
         | Some n \<Rightarrow> if n > 0xffffffff then None else Some n)"

text \<open>
  \<^verbatim>\<open>socket.inet_aton(s)\<close>: one to four parts separated by dots; every part but the
  last is at most 255, the last fills the remaining bytes.  The C function stops at
  the first whitespace character and ignores what follows it.  Python refuses a
  string with an embedded NUL (\<^verbatim>\<open>ValueError\<close>); an invalid address raises
  \<^verbatim>\<open>OSError\<close>.  The result is the list of the parts' values.
\<close>

definition inet_aton :: "string \<Rightarrow> int list result" where
  "inet_aton s =
     (if CHR 0x00 \<in> set s then Inl ValueError
      else
       (let body = takeWhile (\<lambda>c. c \<notin> set c_whitespace) s;
            parts = map aton_part (split_on CHR ''.'' body);
            n = length parts
        in if n \<le> 4 \<and> list_all (\<lambda>p. p \<noteq> None) parts
              \<and> list_all (\<lambda>p. the p \<le> 0xff) (butlast parts)
              \<and> the (last parts) \<le> [0xffffffff, 0xffffff, 0xffff, 0xff] ! (n - 1)
           then Inr (map the parts)
           else Inl OSError))"

section \<open>The evidence a request gathers\<close>

subsection \<open>HTTP responses\<close>

text \<open>
  A \<^verbatim>\<open>requests.Response\<close>: its body text, the status codes of the responses in its
  redirect history, and its own status code.
\<close>

record response =
  resp_text :: string
  history :: "int list"
  status_code :: int

text \<open>
  \<^verbatim>\<open>bool(response)\<close> is \<^verbatim>\<open>response.ok\<close>: false for a status code from 400 to 599.
\<close>

definition response_truthy :: "response option \<Rightarrow> bool" where
  "response_truthy r =
     (case r of None \<Rightarrow> False
      | Some resp \<Rightarrow> \<not> (400 \<le> status_code resp \<and> status_code resp < 600))"

subsection \<open>Parsed markup\<close>

text \<open>
  A BeautifulSoup tree.  The soup object itself is a \<open>Tag\<close> (named \<^verbatim>\<open>[document]\<close>)
  whose contents are the top-level nodes.  Attributes are a dictionary: keys are
  unique.  A \<open>Comment\<close> stands for every string that \<^verbatim>\<open>.text\<close> leaves out.
\<close>

datatype node =
    Tag (tag_name: string) (attrs: "(string \<times> string) list") (contents: "node list")
  | NavigableString string
  | Comment string

text \<open>\<^verbatim>\<open>tag.descendants\<close>: every node below the tag, in document order.\<close>

fun descendants :: "node \<Rightarrow> node list" where
  "descendants (Tag n as cs) = concat (map (\<lambda>c. c # descendants c) cs)"
| "descendants (NavigableString s) = []"
| "descendants (Comment s) = []"

definition is_tag :: "node \<Rightarrow> bool" where
  "is_tag e = (case e of Tag n as cs \<Rightarrow> True | _ \<Rightarrow> False)"

definition has_attr :: "node \<Rightarrow> string \<Rightarrow> bool" where
  "has_attr e a = (case e of Tag n as cs \<Rightarrow> map_of as a \<noteq> None | _ \<Rightarrow> False)"

text \<open>
  \<^verbatim>\<open>tag.find_all(name, a=True)\<close>: the descendant tags with that name that carry the
  attribute \<open>a\<close>; with no attribute filter (\<open>None\<close>), all descendant tags of that name.
\<close>

definition find_all :: "node \<Rightarrow> string \<Rightarrow> string option \<Rightarrow> node list" where
  "find_all t name a =
     filter (\<lambda>e. is_tag e \<and> tag_name e = name \<and>
                 (case a of None \<Rightarrow> True | Some k \<Rightarrow> has_attr e k))
            (descendants t)"

text \<open>\<^verbatim>\<open>tag.find(name)\<close>: the first such descendant, or \<^verbatim>\<open>None\<close>.\<close>

definition find_first :: "node \<Rightarrow> string \<Rightarrow> node option" where
  "find_first t name = (case find_all t name None of [] \<Rightarrow> None | e # es \<Rightarrow> Some e)"

text \<open>\<^verbatim>\<open>tag[key]\<close>: the attribute's value, \<^verbatim>\<open>KeyError\<close> when the tag has none.\<close>

definition tag_get :: "node \<Rightarrow> string \<Rightarrow> string result" where
  "tag_get e k =
     (case e of
        Tag n as cs \<Rightarrow> (case map_of as k of None \<Rightarrow> Inl KeyError | Some v \<Rightarrow> Inr v)
      | _ \<Rightarrow> Inl TypeError)"

text \<open>\<^verbatim>\<open>tag.text\<close>: the strings below the tag, concatenated.\<close>

fun get_text :: "node \<Rightarrow> string" where
  "get_text (Tag n as cs) = concat (map get_text cs)"
| "get_text (NavigableString s) = s"
| "get_text (Comment s) = []"

subsection \<open>WHOIS records\<close>

datatype pydate = Date (year: int) (month: int) (day: int)

text \<open>
  A value of a WHOIS entry: missing, a date, a string that did not parse as a date, or
  a list of values.
\<close>

datatype wvalue =
    WNone
  | WDatetime pydate
  | WStr string
  | WList "wvalue list"

text \<open>
  A \<^verbatim>\<open>WhoisEntry\<close> is a dictionary; \<open>str_of\<close> is what \<^verbatim>\<open>str(entry)\<close> gives.
\<close>

record whois_entry =
  items :: "(string \<times> wvalue) list"
  str_of :: string

text \<open>\<^verbatim>\<open>bool(entry)\<close>: a dictionary is true when it is not empty.\<close>

definition whois_truthy :: "whois_entry option \<Rightarrow> bool" where
  "whois_truthy w = (case w of None \<Rightarrow> False | Some e \<Rightarrow> items e \<noteq> [])"

text \<open>\<^verbatim>\<open>entry.name\<close> is \<^verbatim>\<open>entry.get(name)\<close>: \<^verbatim>\<open>None\<close> for a missing key.\<close>

definition whois_attr :: "whois_entry \<Rightarrow> string \<Rightarrow> wvalue" where
  "whois_attr e k = (case map_of (items e) k of None \<Rightarrow> WNone | Some v \<Rightarrow> v)"

text \<open>\<^verbatim>\<open>if isinstance(d, list): d = d[0]\<close>\<close>

definition first_if_list :: "wvalue \<Rightarrow> wvalue result" where
  "first_if_list d =
     (case d of
        WList vs \<Rightarrow> (case vs of [] \<Rightarrow> Inl IndexError | v # rest \<Rightarrow> Inr v)
      | _ \<Rightarrow> Inr d)"

text \<open>\<^verbatim>\<open>d.year\<close>, \<^verbatim>\<open>d.month\<close>: only a date has them.\<close>

definition year_month :: "wvalue \<Rightarrow> (int \<times> int) result" where
  "year_month d = (case d of WDatetime t \<Rightarrow> Inr (year t, month t) | _ \<Rightarrow> Inl AttributeError)"

subsection \<open>The world outside the process\<close>

text \<open>
  What each external call returns or raises.  The two validators are the parts of
  \<^verbatim>\<open>urllib.parse\<close> that rest on other libraries (\<^verbatim>\<open>ipaddress\<close>, \<^verbatim>\<open>unicodedata\<close>).
  \<open>tldextract_extract\<close> gives the registered domain and its public suffix,
  \<open>ip_api_json\<close> the decoded answer of the geolocation service, \<open>datetime_now\<close> the
  formatted time stamp.  Within one request a call repeated with the same argument
  gets the same answer, and every reading of the clock gives the same date.
\<close>

record world =
  requests_get :: "string \<Rightarrow> response result"
  BeautifulSoup_html :: "string \<Rightarrow> node result"
  whois_whois :: "string \<Rightarrow> whois_entry result"
  urlopen_read :: "string \<Rightarrow> string result"
  BeautifulSoup_xml :: "string \<Rightarrow> node result"
  requests_post :: "string \<Rightarrow> string \<Rightarrow> response result"
  search :: "string \<Rightarrow> string list result"
  gethostbyname :: "string \<Rightarrow> string result"
  date_today :: pydate
  bracketed_host_ok :: "string \<Rightarrow> bool"
  nfkc_netloc_ok :: "string \<Rightarrow> bool"
  tldextract_extract :: "string \<Rightarrow> (string \<times> string) result"
  ip_api_json :: "string \<Rightarrow> (string \<times> string) list result"
  datetime_now :: string

subsection \<open>\<^verbatim>\<open>urllib.parse.urlparse\<close>\<close>

text \<open>The components the program reads.\<close>

record parse_result =
  scheme :: string
  netloc :: string

definition scheme_chars :: string where
  "scheme_chars = ascii_lowercase @ ascii_uppercase @ digits @ ''+-.''"

text \<open>\<^verbatim>\<open>s.partition(c)[0]\<close> and \<^verbatim>\<open>s.partition(c)[2]\<close>\<close>

definition before :: "char \<Rightarrow> string \<Rightarrow> string" where
  "before c s = takeWhile (\<lambda>x. x \<noteq> c) s"

definition after :: "char \<Rightarrow> string \<Rightarrow> string" where
  "after c s = drop 1 (dropWhile (\<lambda>x. x \<noteq> c) s)"

definition is_ascii :: "char \<Rightarrow> bool" where
  "is_ascii c = ((of_char c :: nat) < 128)"

definition urlparse :: "world \<Rightarrow> string \<Rightarrow> parse_result result" where
  "urlparse w url0 =
     (let url1 = dropWhile (\<lambda>c. (of_char c :: nat) \<le> 0x20) url0;
          url = filter (\<lambda>c. c \<notin> set [CHR 0x09, CHR 0x0D, CHR 0x0A]) url1;
          pre = before CHR '':'' url;
          has_scheme = (CHR '':'' \<in> set url \<and> pre \<noteq> []
                        \<and> hd url \<in> set (ascii_lowercase @ ascii_uppercase)
                        \<and> list_all (\<lambda>c. c \<in> set scheme_chars) pre);
          sch = (if has_scheme then lower pre else []);
          rest = (if has_scheme then after CHR '':'' url else url);
          loc = (if take 2 rest = ''//''
                 then takeWhile (\<lambda>c. c \<notin> set ''/?#'') (drop 2 rest) else [])
      in if (CHR ''['' \<in> set loc \<and> CHR '']'' \<notin> set loc)
            \<or> (CHR '']'' \<in> set loc \<and> CHR ''['' \<notin> set loc)
         then Inl ValueError
         else if CHR ''['' \<in> set loc \<and> CHR '']'' \<in> set loc
                 \<and> \<not> bracketed_host_ok w (before CHR '']'' (after CHR ''['' loc))
         then Inl ValueError
         else if loc \<noteq> [] \<and> \<not> list_all is_ascii loc \<and> \<not> nfkc_netloc_ok w loc
         then Inl ValueError
         else Inr \<lparr>scheme = sch, netloc = loc\<rparr>)"

section \<open>The feature extractor (\<^verbatim>\<open>feature.py\<close>)\<close>

text \<open>The fields of a \<^verbatim>\<open>FeatureExtraction\<close> object.\<close>

record fx =
  features :: "int list"
  url :: string
  domain :: string
  whois_response :: "whois_entry option"
  urlparse_obj :: "parse_result option"
  response :: "response option"
  soup :: "node option"

text \<open>On-site test shared by the markup indicators: \<^verbatim>\<open>self.url in s or self.domain in s\<close>.\<close>

definition on_site :: "fx \<Rightarrow> string \<Rightarrow> bool" where
  "on_site self s = (str_in (url self) s \<or> str_in (domain self) s)"

text \<open>
  \<^verbatim>\<open>(n / total * 100) if total else 0\<close>.  The quotient is exact here; the source computes
  it in double precision.
\<close>

definition percentage_of :: "nat \<Rightarrow> nat \<Rightarrow> rat" where
  "percentage_of n total' = (if total' \<noteq> 0 then of_nat n / of_nat total' * 100 else 0)"

subsection \<open>1. Using IP address in URL\<close>

definition UsingIp :: "fx \<Rightarrow> int result" where
  "UsingIp self = try_except (bind_result (inet_aton (url self)) (\<lambda>packed. Inr (- 1))) 1"

subsection \<open>2. Long URL\<close>

definition longUrl :: "fx \<Rightarrow> int result" where
  "longUrl self =
     (if length (url self) < 60 then Inr 1
      else if 60 \<le> length (url self) \<and> length (url self) \<le> 100 then Inr 0
      else Inr (- 1))"

subsection \<open>3. Short URL\<close>

definition shortUrl :: "fx \<Rightarrow> int result" where
  "shortUrl self =
     (if re_search (Alts [Lit ''bit.ly'', Lit ''goo.gl'', Lit ''shorte.st'', Lit ''tinyurl''])
           (url self)
      then Inr (- 1) else Inr 1)"

subsection \<open>4. Symbol @ in URL\<close>

definition symbol :: "fx \<Rightarrow> int result" where
  "symbol self = (if str_in ''@'' (url self) then Inr (- 1) else Inr 1)"

subsection \<open>5. Double slashes after the protocol\<close>

definition redirecting :: "fx \<Rightarrow> int result" where
  "redirecting self =
     (let pos = (if str_in ''://'' (url self)
                 then py_find (url self) ''//'' (py_find (url self) ''://'' 0 + 3)
                 else - 1)
      in if pos \<noteq> - 1 then Inr (- 1) else Inr 1)"

subsection \<open>6. Hyphen in the domain\<close>

definition prefixSuffix :: "fx \<Rightarrow> int result" where
  "prefixSuffix self = (if str_in ''-'' (domain self) then Inr (- 1) else Inr 1)"

subsection \<open>7. Count of subdomains\<close>

definition SubDomains :: "fx \<Rightarrow> int result" where
  "SubDomains self =
     (let dot_count = count_char (domain self) CHR ''.''
      in if dot_count = 1 then Inr 1
         else if dot_count = 2 then Inr 0
         else Inr (- 1))"

subsection \<open>8. Check for HTTPS\<close>

text \<open>A \<^verbatim>\<open>ParseResult\<close> is a tuple of six components, hence true whenever it is there.\<close>

definition Https :: "fx \<Rightarrow> int result" where
  "Https self =
     (case urlparse_obj self of
        None \<Rightarrow> Inr (- 1)
      | Some p \<Rightarrow> if lower (scheme p) = ''https'' then Inr 1 else Inr (- 1))"

subsection \<open>9. Domain registration length\<close>

definition DomainRegLen :: "fx \<Rightarrow> int result" where
  "DomainRegLen self =
     try_except
       (case whois_response self of
          None \<Rightarrow> Inr (- 1)
        | Some entry \<Rightarrow>
            if items entry \<noteq> [] then
              bind_result (first_if_list (whois_attr entry ''expiration_date'')) (\<lambda>expiration_date.
              bind_result (first_if_list (whois_attr entry ''creation_date'')) (\<lambda>creation_date.
              bind_result (year_month expiration_date) (\<lambda>(ey, em).
              bind_result (year_month creation_date) (\<lambda>(cy, cm).
                let age_months = (ey - cy) * 12 + (em - cm)
                in if age_months \<ge> 12 then Inr 1 else Inr (- 1)))))
            else Inr (- 1))
       (- 1)"

subsection \<open>10. Favicon\<close>

fun Favicon_loop :: "fx \<Rightarrow> node list \<Rightarrow> int result" where
  "Favicon_loop self [] = Inr (- 1)"
| "Favicon_loop self (link # rest) =
     bind_result (tag_get link ''href'') (\<lambda>href.
       if on_site self href then Inr 1 else Favicon_loop self rest)"

definition Favicon :: "fx \<Rightarrow> int result" where
  "Favicon self =
     try_except
       (case soup self of
          None \<Rightarrow> Inr (- 1)
        | Some s \<Rightarrow>
            (case find_first s ''head'' of
               None \<Rightarrow> Inr (- 1)
             | Some head \<Rightarrow> Favicon_loop self (find_all head ''link'' (Some ''href''))))
       (- 1)"

subsection \<open>11. Non-standard port usage\<close>

definition NonStdPort :: "fx \<Rightarrow> int result" where
  "NonStdPort self = (if str_in '':'' (domain self) then Inr (- 1) else Inr 1)"

subsection \<open>12. HTTPS in the domain part of the URL\<close>

definition HTTPSDomainURL :: "fx \<Rightarrow> int result" where
  "HTTPSDomainURL self = (if str_in ''https'' (lower (domain self)) then Inr (- 1) else Inr 1)"

subsection \<open>13. Request URL\<close>

text \<open>
  The inner loop over the elements of one tag name, and the outer loop over the tag
  names; the state is \<open>(total', valid)\<close>.
\<close>

fun count_valid :: "fx \<Rightarrow> node list \<Rightarrow> nat \<times> nat \<Rightarrow> (nat \<times> nat) result" where
  "count_valid self [] (total', valid) = Inr (total', valid)"
| "count_valid self (element # rest) (total', valid) =
     bind_result (tag_get element ''src'') (\<lambda>src.
       count_valid self rest (total' + 1, if on_site self src then valid + 1 else valid))"

fun count_valid_tags :: "fx \<Rightarrow> node \<Rightarrow> string list \<Rightarrow> nat \<times> nat \<Rightarrow> (nat \<times> nat) result" where
  "count_valid_tags self s [] acc = Inr acc"
| "count_valid_tags self s (tag # tags) acc =
     bind_result (count_valid self (find_all s tag (Some ''src'')) acc)
       (\<lambda>acc'. count_valid_tags self s tags acc')"

definition RequestURL :: "fx \<Rightarrow> int result" where
  "RequestURL self =
     try_except
       (case soup self of
          None \<Rightarrow> Inr (- 1)
        | Some s \<Rightarrow>
            bind_result (count_valid_tags self s [''img'', ''audio'', ''embed'', ''iframe''] (0, 0))
              (\<lambda>(total', valid).
                 let percentage = percentage_of valid total'
                 in if percentage < 22 then Inr 1
                    else if 22 \<le> percentage \<and> percentage < 61 then Inr 0
                    else Inr (- 1)))
       (- 1)"

subsection \<open>14. Anchor URL\<close>

definition unsafe_href :: "fx \<Rightarrow> string \<Rightarrow> bool" where
  "unsafe_href self href =
     (str_in ''#'' href \<or> str_in ''javascript'' (lower href) \<or> str_in ''mailto'' (lower href)
      \<or> (\<not> str_in (url self) href \<and> \<not> str_in (domain self) href))"

fun count_unsafe :: "fx \<Rightarrow> node list \<Rightarrow> nat \<times> nat \<Rightarrow> (nat \<times> nat) result" where
  "count_unsafe self [] (total', unsafe) = Inr (total', unsafe)"
| "count_unsafe self (a # rest) (total', unsafe) =
     bind_result (tag_get a ''href'') (\<lambda>href.
       count_unsafe self rest (total' + 1, if unsafe_href self href then unsafe + 1 else unsafe))"

definition AnchorURL :: "fx \<Rightarrow> int result" where
  "AnchorURL self =
     try_except
       (case soup self of
          None \<Rightarrow> Inr (- 1)
        | Some s \<Rightarrow>
            bind_result (count_unsafe self (find_all s ''a'' (Some ''href'')) (0, 0))
              (\<lambda>(total', unsafe).
                 let percentage = percentage_of unsafe total'
                 in if percentage < 31 then Inr 1
                    else if 31 \<le> percentage \<and> percentage < 67 then Inr 0
                    else Inr (- 1)))
       (- 1)"

subsection \<open>15. Links in script or link tags\<close>

definition LinksInScriptTags :: "fx \<Rightarrow> int result" where
  "LinksInScriptTags self =
     try_except
       (case soup self of
          None \<Rightarrow> Inr (- 1)
        | Some s \<Rightarrow>
            bind_result (count_valid_tags self s [''link'', ''script''] (0, 0))
              (\<lambda>(total', valid).
                 let percentage = percentage_of valid total'
                 in if percentage < 17 then Inr 1
                    else if 17 \<le> percentage \<and> percentage < 81 then Inr 0
                    else Inr (- 1)))
       (- 1)"

subsection \<open>16. Server form handler\<close>

text \<open>The loop returns in its first iteration, whatever the branch.\<close>

fun ServerFormHandler_loop :: "fx \<Rightarrow> node list \<Rightarrow> int result" where
  "ServerFormHandler_loop self [] = Inr 1"
| "ServerFormHandler_loop self (form # rest) =
     bind_result (tag_get form ''action'') (\<lambda>action.
       if action = '''' \<or> action = ''about:blank'' then Inr (- 1)
       else if \<not> str_in (url self) action \<and> \<not> str_in (domain self) action then Inr 0
       else Inr 1)"

definition ServerFormHandler :: "fx \<Rightarrow> int result" where
  "ServerFormHandler self =
     try_except
       (case soup self of
          None \<Rightarrow> Inr (- 1)
        | Some s \<Rightarrow> ServerFormHandler_loop self (find_all s ''form'' (Some ''action'')))
       (- 1)"

subsection \<open>17. Info email\<close>

definition InfoEmail :: "fx \<Rightarrow> int result" where
  "InfoEmail self =
     try_except
       (case soup self of
          None \<Rightarrow> Inr 1
        | Some s \<Rightarrow> if re_search (Lit ''mailto:'') (get_text s) then Inr (- 1) else Inr 1)
       (- 1)"

subsection \<open>18. Abnormal URL\<close>

definition AbnormalURL :: "fx \<Rightarrow> int result" where
  "AbnormalURL self =
     try_except
       (if response_truthy (response self) \<and> whois_truthy (whois_response self)
           \<and> (case (response self, whois_response self) of
                 (Some r, Some e) \<Rightarrow> str_in (resp_text r) (str_of e)
               | _ \<Rightarrow> False)
        then Inr 1 else Inr (- 1))
       (- 1)"

subsection \<open>19. Website forwarding\<close>

definition history_len :: "response option \<Rightarrow> nat" where
  "history_len r = (case r of None \<Rightarrow> 0 | Some resp \<Rightarrow> length (history resp))"

definition WebsiteForwarding :: "fx \<Rightarrow> int result" where
  "WebsiteForwarding self =
     try_except
       (if response_truthy (response self) \<and> history_len (response self) \<le> 1 then Inr 1
        else if response_truthy (response self) \<and> history_len (response self) \<le> 4 then Inr 0
        else Inr (- 1))
       (- 1)"

subsection \<open>20 to 23. Patterns in the response body\<close>

definition ws :: regex where
  "ws = Class py_whitespace"

text \<open>\<^verbatim>\<open>response and re.search(pattern, response.text)\<close>\<close>

definition body_matches :: "fx \<Rightarrow> regex \<Rightarrow> bool" where
  "body_matches self r =
     (response_truthy (response self)
      \<and> (case response self of None \<Rightarrow> False | Some resp \<Rightarrow> re_search r (resp_text resp)))"

definition StatusBarCust :: "fx \<Rightarrow> int result" where
  "StatusBarCust self =
     try_except
       (if body_matches self
             (Seq (Lit ''<script>'') (Seq (Plus Dot) (Seq (Lit ''onmouseover'')
                (Seq (Plus Dot) (Lit ''</script>'')))))
        then Inr 1 else Inr (- 1))
       (- 1)"

definition DisableRightClick :: "fx \<Rightarrow> int result" where
  "DisableRightClick self =
     try_except
       (if body_matches self
             (Seq (Lit ''event'') (Seq Dot (Seq (Lit ''button'') (Seq (Star ws)
                (Seq (Lit ''=='') (Seq (Star ws) (Lit ''2'')))))))
        then Inr 1 else Inr (- 1))
       (- 1)"

definition UsingPopupWindow :: "fx \<Rightarrow> int result" where
  "UsingPopupWindow self =
     try_except (if body_matches self (Lit ''alert('') then Inr 1 else Inr (- 1)) (- 1)"

definition IframeRedirection :: "fx \<Rightarrow> int result" where
  "IframeRedirection self =
     try_except
       (if body_matches self (Alt (Lit ''<iframe'') (Lit ''<frameBorder''))
        then Inr 1 else Inr (- 1))
       (- 1)"

subsection \<open>24 and 25. Age of domain, DNS recording\<close>

text \<open>\<^verbatim>\<open>date.today()\<close> is read from the world.\<close>

definition AgeofDomain :: "fx \<Rightarrow> world \<Rightarrow> int result" where
  "AgeofDomain self w =
     try_except
       (case whois_response self of
          None \<Rightarrow> Inr (- 1)
        | Some entry \<Rightarrow>
            if items entry \<noteq> [] then
              bind_result (first_if_list (whois_attr entry ''creation_date'')) (\<lambda>creation_date.
                let today = date_today w in
                bind_result (year_month creation_date) (\<lambda>(cy, cm).
                  let age_months = (year today - cy) * 12 + (month today - cm)
                  in if age_months \<ge> 6 then Inr 1 else Inr (- 1)))
            else Inr (- 1))
       (- 1)"

definition DNSRecording :: "fx \<Rightarrow> world \<Rightarrow> int result" where
  "DNSRecording self w = AgeofDomain self w"

subsection \<open>26. Website traffic\<close>

definition WebsiteTraffic :: "fx \<Rightarrow> world \<Rightarrow> int result" where
  "WebsiteTraffic self w =
     try_except
       (bind_result (urlopen_read w (''http://data.alexa.com/data?cli=10&dat=s&url='' @ url self))
          (\<lambda>xml_data.
        bind_result (BeautifulSoup_xml w xml_data) (\<lambda>soup_xml.
          case find_first soup_xml ''REACH'' of
            None \<Rightarrow> Inr (- 1)
          | Some reach \<Rightarrow>
              if has_attr reach ''RANK'' then
                bind_result (tag_get reach ''RANK'') (\<lambda>v.
                bind_result (py_int v) (\<lambda>rank.
                  if rank < 100000 then Inr 1 else Inr 0))
              else Inr (- 1))))
       (- 1)"

subsection \<open>27. Page rank\<close>

text \<open>
  Group 1 of the leftmost match of \<^verbatim>\<open>Global Rank:\s*([0-9]+)\<close>: both repetitions are
  greedy and their classes are disjoint, so a match at a position takes all the
  whitespace and then all the digits.
\<close>

fun global_rank_group :: "string \<Rightarrow> string option" where
  "global_rank_group [] = None"
| "global_rank_group (c # cs) =
     (let ds = takeWhile (\<lambda>x. x \<in> set digits)
                 (dropWhile (\<lambda>x. x \<in> set py_whitespace) (drop 12 (c # cs)))
      in if prefix ''Global Rank:'' (c # cs) \<and> ds \<noteq> [] then Some ds
         else global_rank_group cs)"

definition PageRank :: "fx \<Rightarrow> world \<Rightarrow> int result" where
  "PageRank self w =
     try_except
       (bind_result (requests_post w ''https://www.checkpagerank.net/index.php'' (domain self))
          (\<lambda>resp.
             case global_rank_group (resp_text resp) of
               None \<Rightarrow> Inr (- 1)
             | Some ds \<Rightarrow>
                 bind_result (py_int ds) (\<lambda>global_rank.
                   if 0 < global_rank \<and> global_rank < 100000 then Inr 1 else Inr (- 1))))
       (- 1)"

subsection \<open>28. Google index\<close>

definition GoogleIndex :: "fx \<Rightarrow> world \<Rightarrow> int result" where
  "GoogleIndex self w =
     try_except
       (bind_result (search w (url self)) (\<lambda>results.
          if results \<noteq> [] then Inr 1 else Inr (- 1)))
       1"

subsection \<open>29. Links pointing to the page\<close>

definition LinksPointingToPage :: "fx \<Rightarrow> int result" where
  "LinksPointingToPage self =
     try_except
       (if response_truthy (response self) then
          (let count = (case response self of None \<Rightarrow> 0
                        | Some resp \<Rightarrow>
                            findall_count (Seq (LitI ''<a'') (Seq (Plus ws) (LitI ''href='')))
                              (resp_text resp))
           in if count = 0 then Inr 1
              else if count \<le> 2 then Inr 0
              else Inr (- 1))
        else Inr (- 1))
       (- 1)"

subsection \<open>30. Stats report\<close>

definition StatsReport :: "fx \<Rightarrow> world \<Rightarrow> int result" where
  "StatsReport self w =
     try_except
       (let url_match = re_search
              (Alts [Lit ''at.ua'', Lit ''usa.cc'', Lit ''baltazarpresentes.com.br'', Lit ''pe.hu'',
                     Lit ''esy.es'', Lit ''hol.es'', Lit ''sweddy.com'', Lit ''myjino.ru'',
                     Lit ''96.lt'', Lit ''ow.ly''])
              (url self)
        in bind_result (gethostbyname w (domain self)) (\<lambda>ip_address.
             let ip_match = re_search
                   (Alts [Lit ''146.112.61.108'', Lit ''213.174.157.151'', Lit ''121.50.168.88'',
                          Lit ''192.185.217.116'', Lit ''78.46.211.158'', Lit ''181.174.165.13'',
                          Lit ''46.242.145.103'', Lit ''121.50.168.40'', Lit ''83.125.22.219'',
                          Lit ''46.242.145.98'', Lit ''107.151.148.44'', Lit ''107.151.148.107''])
                   ip_address
             in if url_match \<or> ip_match then Inr (- 1) else Inr 1))
       1"

subsection \<open>The constructor\<close>

text \<open>The thirty \<^verbatim>\<open>self.features.append(...)\<close> statements, in their order.\<close>

definition indicators :: "world \<Rightarrow> (fx \<Rightarrow> int result) list" where
  "indicators w =
     [UsingIp, longUrl, shortUrl, symbol, redirecting, prefixSuffix, SubDomains, Https,
      DomainRegLen, Favicon, NonStdPort, HTTPSDomainURL, RequestURL, AnchorURL,
      LinksInScriptTags, ServerFormHandler, InfoEmail, AbnormalURL, WebsiteForwarding,
      StatusBarCust, DisableRightClick, UsingPopupWindow, IframeRedirection,
      (\<lambda>self. AgeofDomain self w), (\<lambda>self. DNSRecording self w),
      (\<lambda>self. WebsiteTraffic self w), (\<lambda>self. PageRank self w),
      (\<lambda>self. GoogleIndex self w), LinksPointingToPage, (\<lambda>self. StatsReport self w)]"

text \<open>
  \<^verbatim>\<open>self.features.append(indicator())\<close>, one after the other: an exception of an
  indicator would leave the constructor.
\<close>

fun append_all :: "(fx \<Rightarrow> int result) list \<Rightarrow> fx \<Rightarrow> fx result" where
  "append_all [] self = Inr self"
| "append_all (indicator # rest) self =
     bind_result (indicator self) (\<lambda>v.
       append_all rest (self\<lparr>features := features self @ [v]\<rparr>))"

text \<open>The fields as the constructor first sets them.\<close>

definition new_fx :: "string \<Rightarrow> fx" where
  "new_fx u = \<lparr>features = [], url = u, domain = '''', whois_response = None,
               urlparse_obj = None, response = None, soup = None\<rparr>"

text \<open>The three \<^verbatim>\<open>try\<close> blocks of the constructor, which fill the fields.\<close>

definition FeatureExtraction_fetch :: "string \<Rightarrow> world \<Rightarrow> fx" where
  "FeatureExtraction_fetch u w =
     (let self0 = new_fx u;
          self1 = (case requests_get w u of
                     Inl e \<Rightarrow> self0
                   | Inr r \<Rightarrow>
                       (case BeautifulSoup_html w (resp_text r) of
                          Inl e \<Rightarrow> self0\<lparr>response := Some r\<rparr>
                        | Inr s \<Rightarrow> self0\<lparr>response := Some r, soup := Some s\<rparr>));
          self2 = (case urlparse w u of
                     Inl e \<Rightarrow> self1
                   | Inr p \<Rightarrow> self1\<lparr>urlparse_obj := Some p, domain := netloc p\<rparr>)
      in case whois_whois w (domain self2) of
           Inl e \<Rightarrow> self2\<lparr>whois_response := None\<rparr>
         | Inr entry \<Rightarrow> self2\<lparr>whois_response := Some entry\<rparr>)"

definition FeatureExtraction :: "string \<Rightarrow> world \<Rightarrow> fx result" where
  "FeatureExtraction u w = append_all (indicators w) (FeatureExtraction_fetch u w)"

definition getFeaturesList :: "fx \<Rightarrow> int list" where
  "getFeaturesList self = features self"

section \<open>The application (\<^verbatim>\<open>app.py\<close>)\<close>

subsection \<open>\<^verbatim>\<open>validate_url\<close>\<close>

definition validate_url :: "world \<Rightarrow> string \<Rightarrow> string result" where
  "validate_url w u =
     bind_result (urlparse w u) (\<lambda>parsed_url.
       if scheme parsed_url = '''' then Inr (''http://'' @ u) else Inr u)"

subsection \<open>\<^verbatim>\<open>fetch_url_details\<close>\<close>

text \<open>The dictionary the function returns; a key it leaves out is \<open>None\<close>.\<close>

record website_info =
  status :: string
  error :: "exn option"
  source_url :: string
  redirected_url :: "string option"
  ip_address :: string
  detection_date :: string
  certificate_details :: string
  location :: string
  hosting_provider :: string
  asn :: wvalue

text \<open>\<^verbatim>\<open>d.get(key, default)\<close>\<close>

definition dict_get :: "('k \<times> 'v) list \<Rightarrow> 'k \<Rightarrow> 'v \<Rightarrow> 'v" where
  "dict_get d k dflt = (case map_of d k of None \<Rightarrow> dflt | Some v \<Rightarrow> v)"

definition unavailable_info :: "world \<Rightarrow> string \<Rightarrow> string \<Rightarrow> exn option \<Rightarrow> website_info" where
  "unavailable_info w st u e =
     \<lparr>status = st, error = e, source_url = u, redirected_url = None,
      ip_address = ''Unavailable'', detection_date = datetime_now w,
      certificate_details = ''Unavailable'', location = ''Unavailable'',
      hosting_provider = ''Unavailable'', asn = WStr ''Unavailable''\<rparr>"

definition fetch_url_details :: "world \<Rightarrow> string \<Rightarrow> website_info" where
  "fetch_url_details w u =
     (case tldextract_extract w u of
        Inl e \<Rightarrow> unavailable_info w ''error'' u (Some e)
      | Inr (info_domain, info_suffix) \<Rightarrow>
          (let full_domain = info_domain @ ''.'' @ info_suffix
           in case gethostbyname w full_domain of
                Inl e \<Rightarrow>
                  if e = Gaierror then unavailable_info w ''offline'' u None
                  else unavailable_info w ''error'' u (Some e)
              | Inr ip \<Rightarrow>
                  (case ip_api_json w (''http://ip-api.com/json/'' @ ip) of
                     Inl e \<Rightarrow> unavailable_info w ''error'' u (Some e)
                   | Inr geo_data \<Rightarrow>
                       \<lparr>status = ''online'', error = None, source_url = u,
                        redirected_url = Some u, ip_address = ip,
                        detection_date = datetime_now w,
                        certificate_details = ''Let's Encrypt: '' @ full_domain,
                        location = dict_get geo_data ''country'' ''Unknown'' @ '', ''
                                     @ dict_get geo_data ''city'' ''Unknown'',
                        hosting_provider = dict_get geo_data ''isp'' ''Unknown'',
                        asn = (case whois_whois w full_domain of
                                 Inl e \<Rightarrow> WStr ''N/A''
                               | Inr whois_info \<Rightarrow>
                                   dict_get (items whois_info) ''asn'' (WStr ''N/A''))\<rparr>)))"

subsection \<open>The classifier\<close>

text \<open>
  The unpickled model \<^verbatim>\<open>gbc\<close>: \<open>'l\<close> is its type of labels, \<open>'p\<close> the type of its
  probabilities.  Both methods take the one-row data frame and return one entry per row.
\<close>

record ('l, 'p) model =
  predict :: "(string \<times> int) list \<Rightarrow> 'l list result"
  predict_proba :: "(string \<times> int) list \<Rightarrow> 'p list list result"

definition column_names :: "string list" where
  "column_names =
     [''Index'', ''UsingIP'', ''LongURL'', ''ShortURL'', ''Symbol@'', ''Redirecting//'',
      ''PrefixSuffix-'', ''SubDomains'', ''HTTPS'', ''DomainRegLen'', ''Favicon'',
      ''NonStdPort'', ''HTTPSDomainURL'', ''RequestURL'', ''AnchorURL'',
      ''LinksInScriptTags'', ''ServerFormHandler'', ''InfoEmail'', ''AbnormalURL'',
      ''WebsiteForwarding'', ''StatusBarCust'', ''DisableRightClick'',
      ''UsingPopupWindow'', ''IframeRedirection'', ''AgeofDomain'', ''DNSRecording'',
      ''WebsiteTraffic'', ''PageRank'', ''GoogleIndex'', ''LinksPointingToPage'',
      ''StatsReport'']"

text \<open>\<^verbatim>\<open>np.array(xs).reshape(1, 30)\<close>: \<^verbatim>\<open>ValueError\<close> unless there are 30 entries.\<close>

definition reshape_1_30 :: "int list \<Rightarrow> int list result" where
  "reshape_1_30 xs = (if length xs = 30 then Inr xs else Inl ValueError)"

text \<open>\<^verbatim>\<open>np.hstack((np.zeros((1, 1)), features))\<close>\<close>

definition hstack_dummy :: "int list \<Rightarrow> int list" where
  "hstack_dummy row = 0 # row"

text \<open>
  \<^verbatim>\<open>pd.DataFrame(row, columns=names)\<close>: the one row, each value under its column name;
  \<^verbatim>\<open>ValueError\<close> when the numbers of names and values differ.
\<close>

definition DataFrame :: "int list \<Rightarrow> string list \<Rightarrow> (string \<times> int) list result" where
  "DataFrame row names =
     (if length names = length row then Inr (zip names row) else Inl ValueError)"

text \<open>\<^verbatim>\<open>xs[i]\<close> for \<open>i \<ge> 0\<close>\<close>

definition py_index :: "'a list \<Rightarrow> nat \<Rightarrow> 'a result" where
  "py_index xs i = (if i < length xs then Inr (xs ! i) else Inl IndexError)"

text \<open>
  From the feature list to the data frame handed to the model, and from there to the
  prediction and the probability of the class at index 1, as \<^verbatim>\<open>index\<close> computes
  them.
\<close>

definition model_input :: "int list \<Rightarrow> (string \<times> int) list result" where
  "model_input features_list =
     bind_result (reshape_1_30 features_list) (\<lambda>feats.
       DataFrame (hstack_dummy feats) column_names)"

definition classify :: "('l, 'p) model \<Rightarrow> int list \<Rightarrow> ('l \<times> 'p) result" where
  "classify gbc features_list =
     bind_result (model_input features_list) (\<lambda>features_df.
     bind_result (predict gbc features_df) (\<lambda>predictions.
     bind_result (py_index predictions 0) (\<lambda>prediction.
     bind_result (predict_proba gbc features_df) (\<lambda>probas.
     bind_result (py_index probas 0) (\<lambda>proba.
     bind_result (py_index proba 1) (\<lambda>pro_non_phishing.
       Inr (prediction, pro_non_phishing)))))))"

subsection \<open>\<^verbatim>\<open>index\<close>\<close>

record request =
  request_method :: string
  form :: "(string \<times> string) list"

text \<open>
  The value of the template variable \<^verbatim>\<open>xx\<close>: \<open>-1\<close>, or \<^verbatim>\<open>round(p, 2)\<close> of a
  probability \<open>p\<close>.  Rounding and formatting of the floating-point probability are
  kept symbolic.
\<close>

datatype 'p xx_value = MinusOne | Round2 'p

text \<open>
  The arguments of \<^verbatim>\<open>render_template("index.html", ...)\<close>; an argument that is not
  passed is \<open>None\<close> (\<open>False\<close> for \<open>is_offline\<close>).  \<open>result_text\<close> holds the
  probability that the text shows as a percentage.
\<close>

record ('l, 'p) page =
  xx :: "'p xx_value"
  page_url :: "string option"
  info :: "website_info option"
  is_offline :: bool
  prediction :: "'l option"
  result_text :: "'p option"
  error_msg :: "exn option"

definition empty_page :: "('l, 'p) page" where
  "empty_page = \<lparr>xx = MinusOne, page_url = None, info = None, is_offline = False,
                  prediction = None, result_text = None, error_msg = None\<rparr>"

text \<open>
  The view.  \<^verbatim>\<open>validate_url\<close> runs outside the \<^verbatim>\<open>try\<close>, so its exception leaves
  the view.  The screenshot taken for a site that is online is an effect outside the
  page (its failure is caught and printed), so both branches render the same arguments
  but \<open>is_offline\<close>.
\<close>

definition index :: "world \<Rightarrow> ('l, 'p) model \<Rightarrow> request \<Rightarrow> ('l, 'p) page result" where
  "index w gbc req =
     (if request_method req = ''POST'' then
        bind_result (validate_url w (dict_get (form req) ''url'' '''')) (\<lambda>u.
          let website_info = fetch_url_details w u
          in case bind_result (FeatureExtraction u w) (\<lambda>extractor.
                    classify gbc (getFeaturesList extractor)) of
               Inr (pred, pro_non_phishing) \<Rightarrow>
                 if status website_info = ''offline'' then
                   Inr (empty_page\<lparr>page_url := Some u, info := Some website_info,
                                    is_offline := True, xx := Round2 pro_non_phishing,
                                    prediction := Some pred,
                                    result_text := Some pro_non_phishing\<rparr>)
                 else
                   Inr (empty_page\<lparr>xx := Round2 pro_non_phishing, page_url := Some u,
                                    prediction := Some pred,
                                    result_text := Some pro_non_phishing,
                                    info := Some website_info\<rparr>)
             | Inl e \<Rightarrow>
                 Inr (empty_page\<lparr>xx := MinusOne, error_msg := Some e, page_url := Some u,
                                  info := Some website_info\<rparr>))
      else Inr empty_page)"

section \<open>Properties\<close>

text \<open>An indicator returned (it did not raise), and what it returned is \<open>-1\<close>, \<open>0\<close> or \<open>1\<close>.\<close>

definition trinary :: "int result \<Rightarrow> bool" where
  "trinary r = (r = Inr (- 1) \<or> r = Inr 0 \<or> r = Inr 1)"

text \<open>
  A world in which every external call fails, except that the registered domain of
  the URL can be extracted.
\<close>

definition unreachable_world :: world where
  "unreachable_world =
     \<lparr>requests_get = (\<lambda>u. Inl RequestException),
      BeautifulSoup_html = (\<lambda>t. Inl ParserError),
      whois_whois = (\<lambda>d. Inl PywhoisError),
      urlopen_read = (\<lambda>u. Inl URLError),
      BeautifulSoup_xml = (\<lambda>t. Inl ParserError),
      requests_post = (\<lambda>u n. Inl RequestException),
      search = (\<lambda>u. Inl RequestException),
      gethostbyname = (\<lambda>h. Inl Gaierror),
      date_today = Date 2025 6 15,
      bracketed_host_ok = (\<lambda>h. False),
      nfkc_netloc_ok = (\<lambda>h. True),
      tldextract_extract = (\<lambda>u. Inr (''example'', ''com'')),
      ip_api_json = (\<lambda>u. Inl RequestException),
      datetime_now = ''June 15, 2025, 12:00:00 PM''\<rparr>"

text \<open>
  The order in which section 4.3 of the specification enumerates the indicators
  (lexical, registration, content, reputation); its two descriptions of a port in the
  host are the one indicator \<open>NonStdPort\<close>.
\<close>

definition spec_4_3_order :: "world \<Rightarrow> (fx \<Rightarrow> int result) list" where
  "spec_4_3_order w =
     [UsingIp, longUrl, shortUrl, symbol, redirecting, prefixSuffix, SubDomains, Https,
      HTTPSDomainURL, NonStdPort,
      DomainRegLen, (\<lambda>self. AgeofDomain self w), (\<lambda>self. DNSRecording self w),
      Favicon, RequestURL, AnchorURL, LinksInScriptTags, ServerFormHandler, InfoEmail,
      AbnormalURL, WebsiteForwarding, StatusBarCust, DisableRightClick, UsingPopupWindow,
      IframeRedirection, LinksPointingToPage,
      (\<lambda>self. WebsiteTraffic self w), (\<lambda>self. PageRank self w),
      (\<lambda>self. GoogleIndex self w), (\<lambda>self. StatsReport self w)]"

text \<open>
  The object for \<^verbatim>\<open>http://example.com\<close> whose page was fetched and parsed to the
  given tree, and some small trees.
\<close>

definition page_fx :: "node \<Rightarrow> fx" where
  "page_fx s = (new_fx ''http://example.com'')\<lparr>domain := ''example.com'', soup := Some s\<rparr>"

definition no_anchor_soup :: node where
  "no_anchor_soup =
     Tag ''[document]'' []
       [Tag ''html'' []
          [Tag ''body'' []
             [Tag ''p'' [] [NavigableString ''hello''],
              Tag ''a'' [(''name'', ''top'')] []]]]"

definition three_forms_soup :: node where
  "three_forms_soup =
     Tag ''[document]'' []
       [Tag ''form'' [(''action'', ''http://example.com/login'')] [],
        Tag ''form'' [(''action'', '''')] [],
        Tag ''form'' [(''action'', ''http://evil.test/steal'')] []]"

definition on_site_img_soup :: node where
  "on_site_img_soup =
     Tag ''[document]'' [] [Tag ''img'' [(''src'', ''http://example.com/logo.png'')] []]"

definition off_site_img_soup :: node where
  "off_site_img_soup =
     Tag ''[document]'' [] [Tag ''img'' [(''src'', ''http://cdn.test/logo.png'')] []]"

text \<open>
  The reading of the specification for \<open>UsingIp\<close>: the host component of the URL is
  a raw IP address.
\<close>

definition host_is_raw_ip :: "fx \<Rightarrow> bool" where
  "host_is_raw_ip self = (case inet_aton (domain self) of Inl e \<Rightarrow> False | Inr packed \<Rightarrow> True)"

text \<open>
  A world in which no name resolves while the WHOIS service answers with a
  registration from 2000 to 2030; a stub classifier; a request that posts
  \<^verbatim>\<open>http://example.com\<close>.
\<close>

definition registered_entry :: whois_entry where
  "registered_entry =
     \<lparr>items = [(''creation_date'', WDatetime (Date 2000 1 1)),
               (''expiration_date'', WDatetime (Date 2030 1 1))],
      str_of = ''creation_date: 2000-01-01, expiration_date: 2030-01-01''\<rparr>"

definition dns_down_world :: world where
  "dns_down_world = unreachable_world\<lparr>whois_whois := (\<lambda>d. Inr registered_entry)\<rparr>"

definition stub_model :: "(bool, rat) model" where
  "stub_model = \<lparr>predict = (\<lambda>df. Inr [True]), predict_proba = (\<lambda>df. Inr [[1 / 4, 3 / 4]])\<rparr>"

definition post_request :: request where
  "post_request = \<lparr>request_method = ''POST'', form = [(''url'', ''http://example.com'')]\<rparr>"

text \<open>
  The FetchBundle of section 3 of the specification, for one URL in one world: what
  each fetch the extractor makes for this URL returned or raised.  The page and the
  traffic answer are parsed only when they were fetched.
\<close>

record fetch_bundle =
  http_response :: "response result"
  dom_tree :: "node result option"
  whois_record :: "whois_entry result"
  traffic_answer :: "string result"
  traffic_tree :: "node result option"
  rank_answer :: "response result"
  index_answer :: "string list result"
  resolution :: "string result"

text \<open>The network location of the URL, empty when the URL does not parse.\<close>

definition parsed_domain :: "world \<Rightarrow> string \<Rightarrow> string" where
  "parsed_domain w u = (case urlparse w u of Inl e \<Rightarrow> [] | Inr p \<Rightarrow> netloc p)"

definition FetchBundle :: "string \<Rightarrow> world \<Rightarrow> fetch_bundle" where
  "FetchBundle u w =
     \<lparr>http_response = requests_get w u,
      dom_tree = (case requests_get w u of
                    Inl e \<Rightarrow> None
                  | Inr r \<Rightarrow> Some (BeautifulSoup_html w (resp_text r))),
      whois_record = whois_whois w (parsed_domain w u),
      traffic_answer = urlopen_read w (''http://data.alexa.com/data?cli=10&dat=s&url='' @ u),
      traffic_tree =
        (case urlopen_read w (''http://data.alexa.com/data?cli=10&dat=s&url='' @ u) of
           Inl e \<Rightarrow> None
         | Inr xml_data \<Rightarrow> Some (BeautifulSoup_xml w xml_data)),
      rank_answer = requests_post w ''https://www.checkpagerank.net/index.php'' (parsed_domain w u),
      index_answer = search w u,
      resolution = gethostbyname w (parsed_domain w u)\<rparr>"

text \<open>
  The ClassificationResult a page shows: the label, the probability (rounded, and in
  the result text), and the error when the classification failed.
\<close>

definition ClassificationResult ::
    "('l, 'p) page \<Rightarrow> 'l option \<times> 'p xx_value \<times> 'p option \<times> exn option" where
  "ClassificationResult pg = (prediction pg, xx pg, result_text pg, error_msg pg)"

text \<open>
  A domain created on 2025-01-20, seen on 2025-06-15 and on 2025-07-01.
\<close>

definition young_entry :: whois_entry where
  "young_entry =
     \<lparr>items = [(''creation_date'', WDatetime (Date 2025 1 20)),
               (''expiration_date'', WDatetime (Date 2026 1 20))],
      str_of = ''creation_date: 2025-01-20, expiration_date: 2026-01-20''\<rparr>"

definition june_world :: world where
  "june_world = unreachable_world\<lparr>whois_whois := (\<lambda>d. Inr young_entry)\<rparr>"

definition july_world :: world where
  "july_world = june_world\<lparr>date_today := Date 2025 7 1\<rparr>"

text \<open>
  A world later in June 2025 that gives the same evidence for \<^verbatim>\<open>http://example.com\<close>
  and differs everywhere else: other searches and other names answer, and the
  registered domain extracted for the site details is another one, which resolves.
\<close>

definition late_june_world :: world where
  "late_june_world =
     june_world
       \<lparr>date_today := Date 2025 6 30,
        search := (\<lambda>x. if x = ''http://example.com'' then search june_world x
                       else Inr [''http://elsewhere.test/'']),
        gethostbyname := (\<lambda>h. if h = ''example.com'' then gethostbyname june_world h
                              else Inr ''192.0.2.7''),
        tldextract_extract := (\<lambda>x. Inr (''other'', ''org'')),
        ip_api_json := (\<lambda>x. Inr [(''country'', ''Utopia''), (''city'', ''Nowhere'')]),
        datetime_now := ''June 30, 2025, 08:00:00 AM''\<rparr>"

text \<open>An indicator that does not read the feature list.\<close>

definition ignores_features :: "(fx \<Rightarrow> int result) \<Rightarrow> bool" where
  "ignores_features indicator = (\<forall>self f. indicator (self\<lparr>features := f\<rparr>) = indicator self)"

subsection \<open>Strings\<close>

lemma str_in_sublist: "str_in sub s = sublist sub s"
  by (induction s) (auto simp: sublist_Cons_right)

subsection \<open>Every indicator is trinary\<close>

lemma trinary_simps: "trinary (Inr (- 1))" "trinary (Inr 0)" "trinary (Inr 1)"
  by (simp_all add: trinary_def)

lemma trinary_if: "trinary a \<Longrightarrow> trinary b \<Longrightarrow> trinary (if c then a else b)"
  by simp

lemma trinary_try_except:
  assumes "\<And>v. body = Inr v \<Longrightarrow> trinary (Inr v)" and "trinary (Inr d)"
  shows "trinary (try_except body d)"
  using assms by (cases body) (simp_all add: try_except_def)

lemma bind_result_Inr_iff:
  "bind_result r f = Inr v \<longleftrightarrow> (\<exists>x. r = Inr x \<and> f x = Inr v)"
  by (cases r) (simp_all add: bind_result_def)

lemma UsingIp_trinary: "trinary (UsingIp self)"
  unfolding UsingIp_def
  by (rule trinary_try_except) (auto simp: bind_result_Inr_iff trinary_def)

lemma longUrl_trinary: "trinary (longUrl self)"
  by (simp add: longUrl_def trinary_def)

lemma shortUrl_trinary: "trinary (shortUrl self)"
  by (simp add: shortUrl_def trinary_def)

lemma symbol_trinary: "trinary (symbol self)"
  by (simp add: symbol_def trinary_def)

lemma redirecting_trinary: "trinary (redirecting self)"
  by (simp add: redirecting_def trinary_def Let_def)

lemma prefixSuffix_trinary: "trinary (prefixSuffix self)"
  by (simp add: prefixSuffix_def trinary_def)

lemma SubDomains_trinary: "trinary (SubDomains self)"
  by (simp add: SubDomains_def trinary_def Let_def)

lemma Https_trinary: "trinary (Https self)"
  by (simp add: Https_def trinary_def split: option.splits)

lemma DomainRegLen_trinary: "trinary (DomainRegLen self)"
  unfolding DomainRegLen_def
  by (rule trinary_try_except)
     (auto simp: bind_result_Inr_iff trinary_def Let_def split: option.splits if_splits prod.splits)

lemma Favicon_loop_range: "Favicon_loop self links = Inr v \<Longrightarrow> v = - 1 \<or> v = 1"
  by (induction links) (auto simp: bind_result_Inr_iff split: if_splits)

lemma Favicon_trinary: "trinary (Favicon self)"
  unfolding Favicon_def
  by (rule trinary_try_except)
     (auto simp: trinary_def dest: Favicon_loop_range split: option.splits)

lemma NonStdPort_trinary: "trinary (NonStdPort self)"
  by (simp add: NonStdPort_def trinary_def)

lemma HTTPSDomainURL_trinary: "trinary (HTTPSDomainURL self)"
  by (simp add: HTTPSDomainURL_def trinary_def)

lemma RequestURL_trinary: "trinary (RequestURL self)"
  unfolding RequestURL_def
  by (rule trinary_try_except)
     (auto simp: bind_result_Inr_iff trinary_def Let_def split: option.splits if_splits prod.splits)

lemma AnchorURL_trinary: "trinary (AnchorURL self)"
  unfolding AnchorURL_def
  by (rule trinary_try_except)
     (auto simp: bind_result_Inr_iff trinary_def Let_def split: option.splits if_splits prod.splits)

lemma LinksInScriptTags_trinary: "trinary (LinksInScriptTags self)"
  unfolding LinksInScriptTags_def
  by (rule trinary_try_except)
     (auto simp: bind_result_Inr_iff trinary_def Let_def split: option.splits if_splits prod.splits)

lemma ServerFormHandler_loop_range:
  "ServerFormHandler_loop self forms = Inr v \<Longrightarrow> v = - 1 \<or> v = 0 \<or> v = 1"
  by (cases forms) (auto simp: bind_result_Inr_iff split: if_splits)

lemma ServerFormHandler_trinary: "trinary (ServerFormHandler self)"
  unfolding ServerFormHandler_def
  by (rule trinary_try_except)
     (auto simp: trinary_def dest: ServerFormHandler_loop_range split: option.splits)

lemma InfoEmail_trinary: "trinary (InfoEmail self)"
  unfolding InfoEmail_def
  by (rule trinary_try_except) (auto simp: trinary_def split: option.splits if_splits)

lemma AbnormalURL_trinary: "trinary (AbnormalURL self)"
  unfolding AbnormalURL_def
  by (rule trinary_try_except) (auto simp: trinary_def split: if_splits)

lemma WebsiteForwarding_trinary: "trinary (WebsiteForwarding self)"
  unfolding WebsiteForwarding_def
  by (rule trinary_try_except) (auto simp: trinary_def split: if_splits)

lemma StatusBarCust_trinary: "trinary (StatusBarCust self)"
  unfolding StatusBarCust_def
  by (rule trinary_try_except) (auto simp: trinary_def split: if_splits)

lemma DisableRightClick_trinary: "trinary (DisableRightClick self)"
  unfolding DisableRightClick_def
  by (rule trinary_try_except) (auto simp: trinary_def split: if_splits)

lemma UsingPopupWindow_trinary: "trinary (UsingPopupWindow self)"
  unfolding UsingPopupWindow_def
  by (rule trinary_try_except) (auto simp: trinary_def split: if_splits)

lemma IframeRedirection_trinary: "trinary (IframeRedirection self)"
  unfolding IframeRedirection_def
  by (rule trinary_try_except) (auto simp: trinary_def split: if_splits)

lemma AgeofDomain_trinary: "trinary (AgeofDomain self w)"
  unfolding AgeofDomain_def
  by (rule trinary_try_except)
     (auto simp: bind_result_Inr_iff trinary_def Let_def split: option.splits if_splits prod.splits)

lemma DNSRecording_trinary: "trinary (DNSRecording self w)"
  by (simp add: DNSRecording_def AgeofDomain_trinary)

lemma WebsiteTraffic_trinary: "trinary (WebsiteTraffic self w)"
  unfolding WebsiteTraffic_def
  by (rule trinary_try_except)
     (auto simp: bind_result_Inr_iff trinary_def split: option.splits if_splits)

lemma PageRank_trinary: "trinary (PageRank self w)"
  unfolding PageRank_def
  by (rule trinary_try_except)
     (auto simp: bind_result_Inr_iff trinary_def Let_def split: option.splits if_splits)

lemma GoogleIndex_trinary: "trinary (GoogleIndex self w)"
  unfolding GoogleIndex_def
  by (rule trinary_try_except)
     (auto simp: bind_result_Inr_iff trinary_def split: if_splits)

lemma LinksPointingToPage_trinary: "trinary (LinksPointingToPage self)"
  unfolding LinksPointingToPage_def
  by (rule trinary_try_except) (auto simp: trinary_def Let_def split: if_splits)

lemma StatsReport_trinary: "trinary (StatsReport self w)"
  unfolding StatsReport_def
  by (rule trinary_try_except)
     (auto simp: bind_result_Inr_iff trinary_def Let_def split: if_splits)

lemmas indicator_trinary =
  UsingIp_trinary longUrl_trinary shortUrl_trinary symbol_trinary redirecting_trinary
  prefixSuffix_trinary SubDomains_trinary Https_trinary DomainRegLen_trinary Favicon_trinary
  NonStdPort_trinary HTTPSDomainURL_trinary RequestURL_trinary AnchorURL_trinary
  LinksInScriptTags_trinary ServerFormHandler_trinary InfoEmail_trinary AbnormalURL_trinary
  WebsiteForwarding_trinary StatusBarCust_trinary DisableRightClick_trinary
  UsingPopupWindow_trinary IframeRedirection_trinary AgeofDomain_trinary DNSRecording_trinary
  WebsiteTraffic_trinary PageRank_trinary GoogleIndex_trinary LinksPointingToPage_trinary
  StatsReport_trinary

text \<open>
  C1.  Whatever the URL and whatever every fetch returned or raised (any state of the
  object, any world), each of the thirty indicators returns, without raising, one of
  \<open>-1\<close>, \<open>0\<close>, \<open>1\<close>.
\<close>

theorem indicators_trinary:
  "list_all (\<lambda>indicator. trinary (indicator self)) (indicators w)"
  unfolding indicators_def by (simp add: indicator_trinary)

theorem indicators_trinary_witness:
  "list_all (\<lambda>indicator. trinary (indicator (page_fx three_forms_soup)))
     (indicators dns_down_world)"
  by (rule indicators_trinary)

subsection \<open>The feature list\<close>

lemma on_site_features [simp]: "on_site (self\<lparr>features := f\<rparr>) = on_site self"
  by (simp add: on_site_def fun_eq_iff)

lemma unsafe_href_features [simp]: "unsafe_href (self\<lparr>features := f\<rparr>) = unsafe_href self"
  by (simp add: unsafe_href_def fun_eq_iff)

lemma Favicon_loop_features [simp]:
  "Favicon_loop (self\<lparr>features := f\<rparr>) = Favicon_loop self"
proof
  fix links show "Favicon_loop (self\<lparr>features := f\<rparr>) links = Favicon_loop self links"
    by (induction links) (simp_all add: bind_result_def split: sum.splits)
qed

lemma count_valid_features [simp]:
  "count_valid (self\<lparr>features := f\<rparr>) = count_valid self"
proof (intro ext)
  fix es acc show "count_valid (self\<lparr>features := f\<rparr>) es acc = count_valid self es acc"
    by (induction self es acc rule: count_valid.induct)
       (simp_all add: bind_result_def split: sum.splits)
qed

lemma count_valid_tags_features [simp]:
  "count_valid_tags (self\<lparr>features := f\<rparr>) = count_valid_tags self"
proof (intro ext)
  fix s tags acc
  show "count_valid_tags (self\<lparr>features := f\<rparr>) s tags acc = count_valid_tags self s tags acc"
    by (induction tags arbitrary: acc) (simp_all add: bind_result_def split: sum.splits)
qed

lemma count_unsafe_features [simp]:
  "count_unsafe (self\<lparr>features := f\<rparr>) = count_unsafe self"
proof (intro ext)
  fix es acc show "count_unsafe (self\<lparr>features := f\<rparr>) es acc = count_unsafe self es acc"
    by (induction self es acc rule: count_unsafe.induct)
       (simp_all add: bind_result_def split: sum.splits)
qed

lemma ServerFormHandler_loop_features [simp]:
  "ServerFormHandler_loop (self\<lparr>features := f\<rparr>) = ServerFormHandler_loop self"
proof
  fix forms
  show "ServerFormHandler_loop (self\<lparr>features := f\<rparr>) forms = ServerFormHandler_loop self forms"
    by (cases forms) (simp_all add: bind_result_def split: sum.splits)
qed

lemma body_matches_features [simp]: "body_matches (self\<lparr>features := f\<rparr>) = body_matches self"
  by (simp add: body_matches_def fun_eq_iff)

lemma indicators_ignore_features: "list_all ignores_features (indicators w)"
  unfolding indicators_def ignores_features_def
  by (simp add: UsingIp_def longUrl_def shortUrl_def symbol_def redirecting_def prefixSuffix_def
      SubDomains_def Https_def DomainRegLen_def Favicon_def NonStdPort_def HTTPSDomainURL_def
      RequestURL_def AnchorURL_def LinksInScriptTags_def ServerFormHandler_def InfoEmail_def
      AbnormalURL_def WebsiteForwarding_def StatusBarCust_def DisableRightClick_def
      UsingPopupWindow_def IframeRedirection_def AgeofDomain_def DNSRecording_def
      WebsiteTraffic_def PageRank_def GoogleIndex_def LinksPointingToPage_def StatsReport_def
      cong: option.case_cong if_cong)

lemma trinary_Inr: "trinary r \<Longrightarrow> \<exists>v. r = Inr v"
  by (auto simp: trinary_def)

lemma append_all_features:
  assumes "list_all (\<lambda>indicator. \<forall>s. trinary (indicator s)) inds"
    and "list_all ignores_features inds"
  shows "\<exists>vs. append_all inds self = Inr (self\<lparr>features := features self @ vs\<rparr>)
              \<and> map Inr vs = map (\<lambda>indicator. indicator self) inds"
  using assms
proof (induction inds arbitrary: self)
  case Nil
  then show ?case by simp
next
  case (Cons indicator rest)
  from Cons.prems obtain v where v: "indicator self = Inr v"
    using trinary_Inr by fastforce
  let ?s = "self\<lparr>features := features self @ [v]\<rparr>"
  from Cons.IH [of ?s] Cons.prems
  obtain vs where vs: "append_all rest ?s = Inr (?s\<lparr>features := features ?s @ vs\<rparr>)"
    "map Inr vs = map (\<lambda>indicator. indicator ?s) rest"
    by auto
  have "map (\<lambda>indicator. indicator ?s) rest = map (\<lambda>indicator. indicator self) rest"
  proof (rule map_cong [OF refl])
    fix indicator assume "indicator \<in> set rest"
    then have "ignores_features indicator"
      using Cons.prems(2) by (simp add: list_all_iff)
    then show "indicator ?s = indicator self"
      by (simp add: ignores_features_def)
  qed
  with v vs show ?case
    by (intro exI [of _ "v # vs"]) (simp add: bind_result_def)
qed

lemma indicators_all_trinary: "list_all (\<lambda>indicator. \<forall>s. trinary (indicator s)) (indicators w)"
  unfolding indicators_def by (simp add: indicator_trinary)

lemma features_fetch: "features (FeatureExtraction_fetch u w) = []"
  by (simp add: FeatureExtraction_fetch_def new_fx_def Let_def split: sum.splits)

lemma url_fetch: "url (FeatureExtraction_fetch u w) = u"
  by (simp add: FeatureExtraction_fetch_def new_fx_def Let_def split: sum.splits)

text \<open>
  The constructor returns the fetched object with its feature list filled by the
  thirty indicators, each evaluated on the fetched object.
\<close>

lemma FeatureExtraction_result:
  "\<exists>vs. FeatureExtraction u w = Inr ((FeatureExtraction_fetch u w)\<lparr>features := vs\<rparr>)
        \<and> map Inr vs = map (\<lambda>indicator. indicator (FeatureExtraction_fetch u w)) (indicators w)"
  using append_all_features [OF indicators_all_trinary indicators_ignore_features,
      of w "FeatureExtraction_fetch u w"]
  by (simp add: FeatureExtraction_def features_fetch)

lemma indicators_update:
  "map (\<lambda>indicator. indicator (self\<lparr>features := vs\<rparr>)) (indicators w)
     = map (\<lambda>indicator. indicator self) (indicators w)"
proof (rule map_cong [OF refl])
  fix indicator assume "indicator \<in> set (indicators w)"
  then have "ignores_features indicator"
    using indicators_ignore_features [of w] by (simp add: list_all_iff)
  then show "indicator (self\<lparr>features := vs\<rparr>) = indicator self"
    by (simp add: ignores_features_def)
qed

lemma FeatureExtraction_features:
  "\<exists>self. FeatureExtraction u w = Inr self
        \<and> map Inr (features self) = map (\<lambda>indicator. indicator self) (indicators w)"
proof -
  obtain vs where vs:
    "FeatureExtraction u w = Inr ((FeatureExtraction_fetch u w)\<lparr>features := vs\<rparr>)"
    "map Inr vs = map (\<lambda>indicator. indicator (FeatureExtraction_fetch u w)) (indicators w)"
    using FeatureExtraction_result by blast
  let ?self = "(FeatureExtraction_fetch u w)\<lparr>features := vs\<rparr>"
  have "map Inr (features ?self) = map Inr vs"
    by simp
  also have "\<dots> = map (\<lambda>indicator. indicator (FeatureExtraction_fetch u w)) (indicators w)"
    by (rule vs(2))
  also have "\<dots> = map (\<lambda>indicator. indicator ?self) (indicators w)"
    by (rule indicators_update [symmetric])
  finally show ?thesis
    using vs(1) by blast
qed

lemma length_column_names: "length column_names = 31"
  by (simp add: column_names_def)

lemma model_input_30:
  "length fs = 30 \<Longrightarrow> model_input fs = Inr (zip column_names (0 # fs))"
  by (simp add: model_input_def reshape_1_30_def bind_result_def DataFrame_def hstack_dummy_def
      length_column_names)

text \<open>
  C2 (amended).  Whatever the URL and whatever failed, the constructor returns and the
  feature list has exactly thirty entries, in the order of the classifier's columns
  (UsingIp, longUrl, ..., StatsReport); the data frame handed to the classifier has
  thirty-one columns, the constant \<open>0\<close> first and then the thirty values in that order.
\<close>

theorem feature_vector_shape:
  "\<exists>self. FeatureExtraction u w = Inr self
     \<and> length (getFeaturesList self) = 30
     \<and> map Inr (getFeaturesList self) =
         [UsingIp self, longUrl self, shortUrl self, symbol self, redirecting self,
          prefixSuffix self, SubDomains self, Https self, DomainRegLen self, Favicon self,
          NonStdPort self, HTTPSDomainURL self, RequestURL self, AnchorURL self,
          LinksInScriptTags self, ServerFormHandler self, InfoEmail self, AbnormalURL self,
          WebsiteForwarding self, StatusBarCust self, DisableRightClick self,
          UsingPopupWindow self, IframeRedirection self, AgeofDomain self w,
          DNSRecording self w, WebsiteTraffic self w, PageRank self w, GoogleIndex self w,
          LinksPointingToPage self, StatsReport self w]
     \<and> model_input (getFeaturesList self) = Inr (zip column_names (0 # getFeaturesList self))
     \<and> length (zip column_names (0 # getFeaturesList self)) = 31
     \<and> map snd (zip column_names (0 # getFeaturesList self)) = 0 # getFeaturesList self"
proof -
  obtain self where self: "FeatureExtraction u w = Inr self"
    "map Inr (features self) = map (\<lambda>indicator. indicator self) (indicators w)"
    using FeatureExtraction_features by blast
  have len: "length (features self) = 30"
    using arg_cong [OF self(2), of length] by (simp add: indicators_def)
  have "map snd (zip column_names (0 # features self)) = 0 # features self"
    using len by (simp add: length_column_names)
  with self len show ?thesis
    by (intro exI [of _ self]) (simp add: getFeaturesList_def model_input_30 length_column_names indicators_def)
qed

lemma DomainRegLen_example:
  "DomainRegLen (FeatureExtraction_fetch ''http://example.com'' unreachable_world) = Inr (- 1)"
  by code_simp

lemma HTTPSDomainURL_example:
  "HTTPSDomainURL (FeatureExtraction_fetch ''http://example.com'' unreachable_world) = Inr 1"
  by code_simp

text \<open>
  C2 as stated fails: the order of the feature list is not the order in which
  section 4.3 enumerates the indicators.  For \<^verbatim>\<open>http://example.com\<close> with every fetch
  failing, the ninth entry is the value of \<open>DomainRegLen\<close> (\<open>-1\<close>), while the ninth
  indicator of section 4.3 (\<^verbatim>\<open>https\<close> inside the host) gives \<open>1\<close>.
\<close>

theorem features_not_in_spec_4_3_order:
  "\<not> (\<exists>self. FeatureExtraction ''http://example.com'' unreachable_world = Inr self
          \<and> map Inr (getFeaturesList self)
              = map (\<lambda>indicator. indicator self) (spec_4_3_order unreachable_world))"
proof
  let ?w = unreachable_world and ?u = "''http://example.com''"
  assume "\<exists>self. FeatureExtraction ?u ?w = Inr self
          \<and> map Inr (getFeaturesList self) = map (\<lambda>indicator. indicator self) (spec_4_3_order ?w)"
  then obtain self where self: "FeatureExtraction ?u ?w = Inr self"
    "map Inr (features self) = map (\<lambda>indicator. indicator self) (spec_4_3_order ?w)"
    by (auto simp: getFeaturesList_def)
  obtain vs where vs: "FeatureExtraction ?u ?w = Inr ((FeatureExtraction_fetch ?u ?w)\<lparr>features := vs\<rparr>)"
    using FeatureExtraction_result by blast
  from FeatureExtraction_features [of ?u ?w] self(1)
  have "map Inr (features self) = map (\<lambda>indicator. indicator self) (indicators ?w)"
    by simp
  with self(2) have "map (\<lambda>indicator. indicator self) (indicators ?w) ! 8
      = map (\<lambda>indicator. indicator self) (spec_4_3_order ?w) ! 8"
    by simp
  then have "DomainRegLen self = HTTPSDomainURL self"
    by (simp add: indicators_def spec_4_3_order_def)
  moreover have "self = (FeatureExtraction_fetch ?u ?w)\<lparr>features := vs\<rparr>"
    using self(1) vs by simp
  ultimately have "DomainRegLen (FeatureExtraction_fetch ?u ?w) = HTTPSDomainURL (FeatureExtraction_fetch ?u ?w)"
    by (simp add: DomainRegLen_def HTTPSDomainURL_def)
  then show False
    by (simp add: DomainRegLen_example HTTPSDomainURL_example)
qed

theorem feature_vector_shape_witness:
  "\<exists>self. FeatureExtraction ''http://example.com'' unreachable_world = Inr self
     \<and> length (getFeaturesList self) = 30
     \<and> getFeaturesList self ! 8 = - 1 \<and> HTTPSDomainURL self = Inr 1
     \<and> model_input (getFeaturesList self) = Inr (zip column_names (0 # getFeaturesList self))"
proof -
  let ?w = unreachable_world and ?u = "''http://example.com''"
  obtain vs where vs: "FeatureExtraction ?u ?w = Inr ((FeatureExtraction_fetch ?u ?w)\<lparr>features := vs\<rparr>)"
    using FeatureExtraction_result by blast
  from feature_vector_shape [of ?u ?w] obtain self where self:
    "FeatureExtraction ?u ?w = Inr self" "length (getFeaturesList self) = 30"
    "map Inr (getFeaturesList self) ! 8 = DomainRegLen self"
    "model_input (getFeaturesList self) = Inr (zip column_names (0 # getFeaturesList self))"
    by force
  have eq: "self = (FeatureExtraction_fetch ?u ?w)\<lparr>features := vs\<rparr>"
    using self(1) vs by simp
  have "DomainRegLen self = DomainRegLen (FeatureExtraction_fetch ?u ?w)"
    "HTTPSDomainURL self = HTTPSDomainURL (FeatureExtraction_fetch ?u ?w)"
    by (simp_all add: eq DomainRegLen_def HTTPSDomainURL_def)
  then have "DomainRegLen self = Inr (- 1)" "HTTPSDomainURL self = Inr 1"
    by (simp_all add: DomainRegLen_example HTTPSDomainURL_example)
  with self show ?thesis
    by (intro exI [of _ self]) simp
qed

subsection \<open>Single indicators\<close>

text \<open>
  C8.  \<open>longUrl\<close> returns \<open>1\<close> for a URL shorter than 60 characters, \<open>0\<close> for 60 to
  100 characters and \<open>-1\<close> above 100; so lengths 59, 60, 100 and 101 give \<open>1\<close>,
  \<open>0\<close>, \<open>0\<close> and \<open>-1\<close>.
\<close>

theorem longUrl_thresholds:
  "longUrl self =
     Inr (if length (url self) < 60 then 1 else if length (url self) \<le> 100 then 0 else - 1)
   \<and> (length (url self) = 59 \<longrightarrow> longUrl self = Inr 1)
   \<and> (length (url self) = 60 \<longrightarrow> longUrl self = Inr 0)
   \<and> (length (url self) = 100 \<longrightarrow> longUrl self = Inr 0)
   \<and> (length (url self) = 101 \<longrightarrow> longUrl self = Inr (- 1))"
  by (simp add: longUrl_def)

theorem longUrl_thresholds_witness:
  "longUrl (new_fx (replicate 59 CHR ''a'')) = Inr 1
   \<and> longUrl (new_fx (replicate 60 CHR ''a'')) = Inr 0
   \<and> longUrl (new_fx (replicate 100 CHR ''a'')) = Inr 0
   \<and> longUrl (new_fx (replicate 101 CHR ''a'')) = Inr (- 1)"
  using longUrl_thresholds [of "new_fx (replicate 59 CHR ''a'')"]
    longUrl_thresholds [of "new_fx (replicate 60 CHR ''a'')"]
    longUrl_thresholds [of "new_fx (replicate 100 CHR ''a'')"]
    longUrl_thresholds [of "new_fx (replicate 101 CHR ''a'')"]
  by (simp add: new_fx_def)

text \<open>
  C6.  \<open>GoogleIndex\<close> returns \<open>1\<close> when the search yields at least one result,
  \<open>-1\<close> when it yields none, and \<open>1\<close> when the search itself raises.
\<close>

theorem GoogleIndex_outcomes:
  "(search w (url self) = Inr results \<and> results \<noteq> [] \<longrightarrow> GoogleIndex self w = Inr 1)
   \<and> (search w (url self) = Inr [] \<longrightarrow> GoogleIndex self w = Inr (- 1))
   \<and> (search w (url self) = Inl e \<longrightarrow> GoogleIndex self w = Inr 1)"
  by (simp add: GoogleIndex_def try_except_def bind_result_def)

theorem GoogleIndex_outcomes_witness:
  "GoogleIndex (new_fx ''http://example.com'')
      (unreachable_world\<lparr>search := (\<lambda>u. Inr [''http://example.com/''])\<rparr>) = Inr 1
   \<and> GoogleIndex (new_fx ''http://example.com'')
      (unreachable_world\<lparr>search := (\<lambda>u. Inr [])\<rparr>) = Inr (- 1)
   \<and> GoogleIndex (new_fx ''http://example.com'') unreachable_world = Inr 1"
  using GoogleIndex_outcomes [of "unreachable_world\<lparr>search := (\<lambda>u. Inr [''http://example.com/''])\<rparr>"
      "new_fx ''http://example.com''" "[''http://example.com/'']"]
    GoogleIndex_outcomes [of "unreachable_world\<lparr>search := (\<lambda>u. Inr [])\<rparr>"
      "new_fx ''http://example.com''"]
    GoogleIndex_outcomes [of unreachable_world "new_fx ''http://example.com''" _ RequestException]
  by (simp add: unreachable_world_def)


text \<open>
  C7.  When the page was parsed and has no \<^verbatim>\<open>a\<close> tag with an \<^verbatim>\<open>href\<close>, \<open>AnchorURL\<close>
  returns \<open>1\<close> (the percentage is taken as 0), not the fallback \<open>-1\<close>.
\<close>

theorem AnchorURL_no_anchors:
  "soup self = Some s \<Longrightarrow> find_all s ''a'' (Some ''href'') = [] \<Longrightarrow> AnchorURL self = Inr 1"
  by (simp add: AnchorURL_def bind_result_def try_except_def percentage_of_def)

theorem AnchorURL_no_anchors_witness:
  "soup (page_fx no_anchor_soup) = Some no_anchor_soup
   \<and> find_all no_anchor_soup ''a'' (Some ''href'') = []
   \<and> AnchorURL (page_fx no_anchor_soup) = Inr 1"
proof -
  have a: "soup (page_fx no_anchor_soup) = Some no_anchor_soup"
    by (simp add: page_fx_def)
  have b: "find_all no_anchor_soup ''a'' (Some ''href'') = []"
    by code_simp
  show ?thesis
    using a b AnchorURL_no_anchors [OF a b] by simp
qed



text \<open>
  C3.  \<open>RequestURL\<close> takes the percentage of the \<^verbatim>\<open>src\<close> attributes that point
  on-site, not off-site: a page whose only image is on-site (0 percent off-site) gets
  \<open>-1\<close>, a page whose only image is off-site (100 percent off-site) gets \<open>1\<close>.
\<close>

theorem RequestURL_counts_on_site:
  "RequestURL (page_fx on_site_img_soup) = Inr (- 1)
   \<and> RequestURL (page_fx off_site_img_soup) = Inr 1"
  by code_simp

subsection \<open>The IP-literal indicator\<close>

lemma split_on_not_Nil: "split_on c s \<noteq> []"
  by (induction s) (simp_all add: Let_def)

lemma hd_split_on: "hd (split_on c s) = takeWhile (\<lambda>x. x \<noteq> c) s"
  by (induction s) (simp_all add: Let_def)

lemma aton_part_first_digit: "aton_part p = Some n \<Longrightarrow> p \<noteq> [] \<and> hd p \<in> set digits"
proof (cases p)
  case Nil
  assume "aton_part p = Some n"
  with Nil show ?thesis by (simp add: aton_part_def)
next
  case (Cons c cs)
  assume a: "aton_part p = Some n"
  have "c \<in> set digits"
  proof (rule ccontr)
    assume n: "c \<notin> set digits"
    then have "c \<noteq> CHR ''0''" by (auto simp: digits_def)
    with n Cons have "aton_part p = None"
      by (auto simp: aton_part_def Let_def)
    with a show False by simp
  qed
  with Cons show ?thesis by simp
qed

lemma hd_takeWhile: "takeWhile P s \<noteq> [] \<Longrightarrow> s \<noteq> [] \<and> hd (takeWhile P s) = hd s"
  by (cases s) (auto split: if_splits)

lemma inet_aton_first_digit:
  assumes "inet_aton s = Inr packed"
  shows "s \<noteq> [] \<and> hd s \<in> set digits"
proof -
  let ?body = "takeWhile (\<lambda>c. c \<notin> set c_whitespace) s"
  let ?parts = "map aton_part (split_on CHR ''.'' ?body)"
  from assms have all: "list_all (\<lambda>p. p \<noteq> None) ?parts"
    by (auto simp: inet_aton_def Let_def split: if_splits)
  have "?parts \<noteq> []"
    by (simp add: split_on_not_Nil)
  then have "hd ?parts \<in> set ?parts"
    by (rule hd_in_set)
  moreover from all have "\<forall>p\<in>set ?parts. p \<noteq> None"
    by (simp only: list_all_iff)
  ultimately have "hd ?parts \<noteq> None"
    by blast
  moreover have "hd ?parts = aton_part (takeWhile (\<lambda>x. x \<noteq> CHR ''.'') ?body)"
    using split_on_not_Nil [of "CHR ''.''" ?body] by (simp add: hd_map hd_split_on)
  ultimately obtain n where "aton_part (takeWhile (\<lambda>x. x \<noteq> CHR ''.'') ?body) = Some n"
    by auto
  then have p: "takeWhile (\<lambda>x. x \<noteq> CHR ''.'') ?body \<noteq> []"
    "hd (takeWhile (\<lambda>x. x \<noteq> CHR ''.'') ?body) \<in> set digits"
    using aton_part_first_digit by blast+
  from hd_takeWhile [OF p(1)] have b: "?body \<noteq> []" "hd (takeWhile (\<lambda>x. x \<noteq> CHR ''.'') ?body) = hd ?body"
    by simp_all
  from hd_takeWhile [OF b(1)] have "s \<noteq> []" "hd ?body = hd s"
    by simp_all
  with p(2) b(2) show ?thesis by simp
qed

lemma digit_above_space: "c \<in> set digits \<Longrightarrow> \<not> (of_char c :: nat) \<le> 0x20"
  by (auto simp: digits_def)

lemma digit_not_letter: "c \<in> set digits \<Longrightarrow> c \<notin> set (ascii_lowercase @ ascii_uppercase)"
  by (auto simp: digits_def ascii_lowercase_def ascii_uppercase_def)

lemma digit_kept: "c \<in> set digits \<Longrightarrow> c \<notin> set [CHR 0x09, CHR 0x0D, CHR 0x0A]"
  by (auto simp: digits_def)

text \<open>When \<^verbatim>\<open>urlparse\<close> finds a scheme, the URL does not begin with a digit.\<close>

lemma urlparse_scheme_first_char:
  assumes "urlparse w u = Inr p" and "scheme p \<noteq> ''''"
  shows "case u of [] \<Rightarrow> True | c # cs \<Rightarrow> c \<notin> set digits"
proof (cases u)
  case Nil
  then show ?thesis by simp
next
  case (Cons c cs)
  let ?url1 = "dropWhile (\<lambda>c. (of_char c :: nat) \<le> 0x20) u"
  let ?url = "filter (\<lambda>c. c \<notin> set [CHR 0x09, CHR 0x0D, CHR 0x0A]) ?url1"
  define has_scheme where "has_scheme =
     (CHR '':'' \<in> set ?url \<and> before CHR '':'' ?url \<noteq> []
      \<and> hd ?url \<in> set (ascii_lowercase @ ascii_uppercase)
      \<and> list_all (\<lambda>c. c \<in> set scheme_chars) (before CHR '':'' ?url))"
  define sch where "sch = (if has_scheme then lower (before CHR '':'' ?url) else [])"
  define rest where "rest = (if has_scheme then after CHR '':'' ?url else ?url)"
  define loc where "loc = (if take 2 rest = ''//''
                 then takeWhile (\<lambda>c. c \<notin> set ''/?#'') (drop 2 rest) else [])"
  have parse: "urlparse w u =
     (if (CHR ''['' \<in> set loc \<and> CHR '']'' \<notin> set loc)
            \<or> (CHR '']'' \<in> set loc \<and> CHR ''['' \<notin> set loc)
         then Inl ValueError
         else if CHR ''['' \<in> set loc \<and> CHR '']'' \<in> set loc
                 \<and> \<not> bracketed_host_ok w (before CHR '']'' (after CHR ''['' loc))
         then Inl ValueError
         else if loc \<noteq> [] \<and> \<not> list_all is_ascii loc \<and> \<not> nfkc_netloc_ok w loc
         then Inl ValueError
         else Inr \<lparr>scheme = sch, netloc = loc\<rparr>)"
    unfolding urlparse_def Let_def loc_def rest_def sch_def has_scheme_def by (rule refl)
  from assms(1) have "scheme p = sch"
    unfolding parse by (auto split: if_splits)
  with assms(2) have "has_scheme"
    by (simp add: sch_def split: if_splits)
  then have hs: "CHR '':'' \<in> set ?url \<and> hd ?url \<in> set (ascii_lowercase @ ascii_uppercase)"
    by (simp add: has_scheme_def)
  have "c \<notin> set digits"
  proof
    assume d: "c \<in> set digits"
    then have "?url1 = c # cs"
      using Cons digit_above_space by simp
    then have "hd ?url = c"
      using digit_kept [OF d] by simp
    with hs digit_not_letter [OF d] show False by simp
  qed
  with Cons show ?thesis by simp
qed


text \<open>
  \<open>UsingIp\<close> hands the whole URL to \<^verbatim>\<open>inet_aton\<close>, so a URL that does not begin
  with a digit gets \<open>1\<close>.
\<close>

lemma UsingIp_whole_url:
  "UsingIp self = Inr (case inet_aton (url self) of Inl e \<Rightarrow> 1 | Inr packed \<Rightarrow> - 1)"
  by (simp add: UsingIp_def try_except_def bind_result_def split: sum.splits)

lemma UsingIp_no_leading_digit:
  assumes "case url self of [] \<Rightarrow> True | c # cs \<Rightarrow> c \<notin> set digits"
  shows "UsingIp self = Inr 1"
proof (cases "inet_aton (url self)")
  case (Inl e)
  then show ?thesis by (simp add: UsingIp_whole_url)
next
  case (Inr packed)
  from inet_aton_first_digit [OF Inr] assms show ?thesis
    by (cases "url self") simp_all
qed

text \<open>
  Whatever string the form posts, the URL that \<^verbatim>\<open>index\<close> hands to the extractor
  makes \<open>UsingIp\<close> return \<open>1\<close>.
\<close>

lemma UsingIp_after_validate_url:
  assumes "validate_url w raw = Inr u" and "url self = u"
  shows "UsingIp self = Inr 1"
proof -
  obtain p where p: "urlparse w raw = Inr p"
    using assms(1) by (cases "urlparse w raw") (simp_all add: validate_url_def bind_result_def)
  have "case u of [] \<Rightarrow> True | c # cs \<Rightarrow> c \<notin> set digits"
  proof (cases "scheme p = []")
    case True
    with assms(1) p have "u = ''http://'' @ raw"
      by (simp add: validate_url_def bind_result_def)
    then show ?thesis by (simp add: digits_def)
  next
    case False
    with assms(1) p have "u = raw"
      by (simp add: validate_url_def bind_result_def)
    with urlparse_scheme_first_char [OF p False] show ?thesis by simp
  qed
  with assms(2) show ?thesis
    by (simp add: UsingIp_no_leading_digit)
qed

text \<open>
  C4.  The indicator is meant to tell a raw IP address in the host, and does not: the
  form input \<^verbatim>\<open>1.2.3.4\<close> becomes \<^verbatim>\<open>http://1.2.3.4\<close>, whose host is the raw IP address
  \<^verbatim>\<open>1.2.3.4\<close>, and \<open>UsingIp\<close> returns \<open>1\<close>.
\<close>

theorem UsingIp_ignores_host:
  "validate_url unreachable_world ''1.2.3.4'' = Inr ''http://1.2.3.4''
   \<and> domain (FeatureExtraction_fetch ''http://1.2.3.4'' unreachable_world) = ''1.2.3.4''
   \<and> host_is_raw_ip (FeatureExtraction_fetch ''http://1.2.3.4'' unreachable_world)
   \<and> UsingIp (FeatureExtraction_fetch ''http://1.2.3.4'' unreachable_world) = Inr 1"
  by code_simp


subsection \<open>An unreachable site\<close>

lemma fetch_url_details_offline:
  "tldextract_extract w u = Inr (d, sfx) \<Longrightarrow> gethostbyname w (d @ ''.'' @ sfx) = Inl Gaierror
   \<Longrightarrow> fetch_url_details w u = unavailable_info w ''offline'' u None"
  by (simp add: fetch_url_details_def)

lemma StatsReport_dns_failure:
  "gethostbyname w (domain self) = Inl e \<Longrightarrow> StatsReport self w = Inr 1"
  by (simp add: StatsReport_def try_except_def bind_result_def Let_def)

lemma whois_failure:
  "whois_response self = None \<Longrightarrow> DomainRegLen self = Inr (- 1) \<and> AgeofDomain self w = Inr (- 1)"
  by (simp add: DomainRegLen_def AgeofDomain_def try_except_def)

lemma whois_response_fetch:
  "whois_response (FeatureExtraction_fetch u w) =
     (case whois_whois w (domain (FeatureExtraction_fetch u w)) of
        Inl e \<Rightarrow> None | Inr entry \<Rightarrow> Some entry)"
  by (simp add: FeatureExtraction_fetch_def new_fx_def Let_def split: sum.splits)

lemma length_indicators: "length (indicators w) = 30"
  by (simp add: indicators_def)

text \<open>
  C5 (amended).  When the name of the registered domain does not resolve, the site
  is reported \<^verbatim>\<open>offline\<close> and the request is not aborted: all thirty features are
  extracted, the classifier is run on them, and the offline page carries its
  prediction and probability (the error page, if the classifier itself raises).
  \<open>StatsReport\<close> is \<open>1\<close> whenever the resolution of the URL's network location
  fails.  \<open>DomainRegLen\<close> and \<open>AgeofDomain\<close> are \<open>-1\<close> whenever the WHOIS lookup
  fails; they do not depend on name resolution.
\<close>

theorem offline_still_classified:
  assumes "request_method req = ''POST''"
    and "validate_url w (dict_get (form req) ''url'' '''') = Inr u"
    and "tldextract_extract w u = Inr (d, sfx)"
    and "gethostbyname w (d @ ''.'' @ sfx) = Inl Gaierror"
  shows "\<exists>self. FeatureExtraction u w = Inr self
           \<and> length (getFeaturesList self) = 30
           \<and> status (fetch_url_details w u) = ''offline''
           \<and> index w gbc req =
               Inr (case classify gbc (getFeaturesList self) of
                      Inr (pred, pro_non_phishing) \<Rightarrow>
                        empty_page\<lparr>page_url := Some u, info := Some (fetch_url_details w u),
                                   is_offline := True, xx := Round2 pro_non_phishing,
                                   prediction := Some pred,
                                   result_text := Some pro_non_phishing\<rparr>
                    | Inl e \<Rightarrow>
                        empty_page\<lparr>xx := MinusOne, error_msg := Some e, page_url := Some u,
                                   info := Some (fetch_url_details w u)\<rparr>)
           \<and> ((\<exists>e. gethostbyname w (domain self) = Inl e) \<longrightarrow> StatsReport self w = Inr 1)
           \<and> ((\<exists>e. whois_whois w (domain self) = Inl e)
                \<longrightarrow> DomainRegLen self = Inr (- 1) \<and> AgeofDomain self w = Inr (- 1))"
proof -
  let ?fetched = "FeatureExtraction_fetch u w"
  obtain vs where vs: "FeatureExtraction u w = Inr (?fetched\<lparr>features := vs\<rparr>)"
    "map Inr vs = map (\<lambda>indicator. indicator ?fetched) (indicators w)"
    using FeatureExtraction_result by blast
  let ?self = "?fetched\<lparr>features := vs\<rparr>"
  have len: "length (getFeaturesList ?self) = 30"
    using arg_cong [OF vs(2), of length] by (simp add: getFeaturesList_def length_indicators)
  have st: "status (fetch_url_details w u) = ''offline''"
    using fetch_url_details_offline [OF assms(3,4)] by (simp add: unavailable_info_def)
  have idx: "index w gbc req =
               Inr (case classify gbc (getFeaturesList ?self) of
                      Inr (pred, pro_non_phishing) \<Rightarrow>
                        empty_page\<lparr>page_url := Some u, info := Some (fetch_url_details w u),
                                   is_offline := True, xx := Round2 pro_non_phishing,
                                   prediction := Some pred,
                                   result_text := Some pro_non_phishing\<rparr>
                    | Inl e \<Rightarrow>
                        empty_page\<lparr>xx := MinusOne, error_msg := Some e, page_url := Some u,
                                   info := Some (fetch_url_details w u)\<rparr>)"
    using assms(1,2) vs(1) st
    by (simp add: index_def bind_result_def Let_def split: sum.splits prod.splits)
  have dns: "(\<exists>e. gethostbyname w (domain ?self) = Inl e) \<longrightarrow> StatsReport ?self w = Inr 1"
    using StatsReport_dns_failure by blast
  have who: "(\<exists>e. whois_whois w (domain ?self) = Inl e)
                \<longrightarrow> DomainRegLen ?self = Inr (- 1) \<and> AgeofDomain ?self w = Inr (- 1)"
  proof
    assume "\<exists>e. whois_whois w (domain ?self) = Inl e"
    then have "whois_response ?self = None"
      using whois_response_fetch [of u w] by auto
    then show "DomainRegLen ?self = Inr (- 1) \<and> AgeofDomain ?self w = Inr (- 1)"
      by (rule whois_failure)
  qed
  from vs(1) len st idx dns who show ?thesis
    by blast
qed

text \<open>
  C5 as stated fails: name resolution fails and the site is reported offline, yet
  the WHOIS record is there and both registration indicators are \<open>1\<close>.
\<close>

theorem dns_failure_counterexample:
  "tldextract_extract dns_down_world ''http://example.com'' = Inr (''example'', ''com'')
   \<and> gethostbyname dns_down_world ''example.com'' = Inl Gaierror
   \<and> status (fetch_url_details dns_down_world ''http://example.com'') = ''offline''
   \<and> DomainRegLen (FeatureExtraction_fetch ''http://example.com'' dns_down_world) = Inr 1
   \<and> AgeofDomain (FeatureExtraction_fetch ''http://example.com'' dns_down_world) dns_down_world = Inr 1"
  by code_simp

lemma classify_stub: "length fs = 30 \<Longrightarrow> classify stub_model fs = Inr (True, 3 / 4)"
  by (simp add: classify_def model_input_30 bind_result_def stub_model_def py_index_def)

theorem offline_still_classified_witness:
  "request_method post_request = ''POST''
   \<and> validate_url unreachable_world (dict_get (form post_request) ''url'' '''') = Inr ''http://example.com''
   \<and> tldextract_extract unreachable_world ''http://example.com'' = Inr (''example'', ''com'')
   \<and> gethostbyname unreachable_world (''example'' @ ''.'' @ ''com'') = Inl Gaierror
   \<and> index unreachable_world stub_model post_request =
       Inr (empty_page\<lparr>page_url := Some ''http://example.com'',
                       info := Some (fetch_url_details unreachable_world ''http://example.com''),
                       is_offline := True, xx := Round2 (3 / 4), prediction := Some True,
                       result_text := Some (3 / 4)\<rparr>)"
proof -
  have a: "request_method post_request = ''POST''"
    by code_simp
  have b: "validate_url unreachable_world (dict_get (form post_request) ''url'' '''') = Inr ''http://example.com''"
    by code_simp
  have c: "tldextract_extract unreachable_world ''http://example.com'' = Inr (''example'', ''com'')"
    by code_simp
  have d: "gethostbyname unreachable_world (''example'' @ ''.'' @ ''com'') = Inl Gaierror"
    by code_simp
  from offline_still_classified [OF a b c d, of stub_model]
  obtain self where self: "length (getFeaturesList self) = 30"
    "index unreachable_world stub_model post_request =
               Inr (case classify stub_model (getFeaturesList self) of
                      Inr (pred, pro_non_phishing) \<Rightarrow>
                        empty_page\<lparr>page_url := Some ''http://example.com'',
                                   info := Some (fetch_url_details unreachable_world ''http://example.com''),
                                   is_offline := True, xx := Round2 pro_non_phishing,
                                   prediction := Some pred,
                                   result_text := Some pro_non_phishing\<rparr>
                    | Inl e \<Rightarrow>
                        empty_page\<lparr>xx := MinusOne, error_msg := Some e,
                                   page_url := Some ''http://example.com'',
                                   info := Some (fetch_url_details unreachable_world ''http://example.com'')\<rparr>)"
    by blast
  from self have "index unreachable_world stub_model post_request =
       Inr (empty_page\<lparr>page_url := Some ''http://example.com'',
                       info := Some (fetch_url_details unreachable_world ''http://example.com''),
                       is_offline := True, xx := Round2 (3 / 4), prediction := Some True,
                       result_text := Some (3 / 4)\<rparr>)"
    by (simp add: classify_stub)
  with a b c d show ?thesis
    by (intro conjI)
qed

subsection \<open>Determinism\<close>

lemma domain_fetch: "domain (FeatureExtraction_fetch u w) = parsed_domain w u"
  by (simp add: FeatureExtraction_fetch_def parsed_domain_def new_fx_def Let_def split: sum.splits)

text \<open>The fetched object is made of the parsed URL and the bundle.\<close>

lemma fetch_same_bundle:
  assumes "urlparse w1 u = urlparse w2 u" and "FetchBundle u w1 = FetchBundle u w2"
  shows "FeatureExtraction_fetch u w1 = FeatureExtraction_fetch u w2"
proof -
  have d: "parsed_domain w1 u = parsed_domain w2 u"
    using assms(1) by (simp add: parsed_domain_def)
  from assms(2) have g: "requests_get w1 u = requests_get w2 u"
    using arg_cong [OF assms(2), of http_response] by (simp add: FetchBundle_def)
  have t: "(case requests_get w2 u of Inl e \<Rightarrow> None
            | Inr r \<Rightarrow> Some (BeautifulSoup_html w1 (resp_text r)))
         = (case requests_get w2 u of Inl e \<Rightarrow> None
            | Inr r \<Rightarrow> Some (BeautifulSoup_html w2 (resp_text r)))"
    using arg_cong [OF assms(2), of dom_tree] by (simp add: FetchBundle_def g)
  have wh: "whois_whois w1 (parsed_domain w2 u) = whois_whois w2 (parsed_domain w2 u)"
    using arg_cong [OF assms(2), of whois_record] by (simp add: FetchBundle_def d)
  show ?thesis
  proof (cases "requests_get w2 u")
    case (Inl e)
    with g assms(1) wh show ?thesis
      by (cases "urlparse w2 u")
         (simp_all add: FeatureExtraction_fetch_def new_fx_def parsed_domain_def)
  next
    case (Inr r)
    with t have "BeautifulSoup_html w1 (resp_text r) = BeautifulSoup_html w2 (resp_text r)"
      by simp
    with Inr g assms(1) wh show ?thesis
      by (cases "urlparse w2 u"; cases "BeautifulSoup_html w2 (resp_text r)")
         (simp_all add: FeatureExtraction_fetch_def new_fx_def parsed_domain_def)
  qed
qed

lemma AgeofDomain_same:
  assumes "year (date_today w1) = year (date_today w2)"
    and "month (date_today w1) = month (date_today w2)"
  shows "AgeofDomain self w1 = AgeofDomain self w2"
  unfolding AgeofDomain_def Let_def assms by (rule refl)

lemma WebsiteTraffic_same_bundle:
  assumes "FetchBundle u w1 = FetchBundle u w2" and "url self = u"
  shows "WebsiteTraffic self w1 = WebsiteTraffic self w2"
proof -
  let ?q = "''http://data.alexa.com/data?cli=10&dat=s&url='' @ u"
  have a: "urlopen_read w1 ?q = urlopen_read w2 ?q"
    using arg_cong [OF assms(1), of traffic_answer] by (simp add: FetchBundle_def del: append.simps)
  have t: "(case urlopen_read w2 ?q of Inl e \<Rightarrow> None
            | Inr xml_data \<Rightarrow> Some (BeautifulSoup_xml w1 xml_data))
         = (case urlopen_read w2 ?q of Inl e \<Rightarrow> None
            | Inr xml_data \<Rightarrow> Some (BeautifulSoup_xml w2 xml_data))"
    using arg_cong [OF assms(1), of traffic_tree] by (simp add: FetchBundle_def a del: append.simps)
  show ?thesis
  proof (cases "urlopen_read w2 ?q")
    case (Inl e)
    with a assms(2) show ?thesis
      by (simp add: WebsiteTraffic_def bind_result_def del: append.simps)
  next
    case (Inr xml_data)
    with t have "BeautifulSoup_xml w1 xml_data = BeautifulSoup_xml w2 xml_data"
      by simp
    with Inr a assms(2) show ?thesis
      by (simp add: WebsiteTraffic_def bind_result_def del: append.simps)
  qed
qed

lemma PageRank_same_bundle:
  assumes "FetchBundle u w1 = FetchBundle u w2"
    and "domain self = parsed_domain w1 u" and "domain self = parsed_domain w2 u"
  shows "PageRank self w1 = PageRank self w2"
  using arg_cong [OF assms(1), of rank_answer] assms(2,3)
  by (simp add: FetchBundle_def PageRank_def)

lemma GoogleIndex_same_bundle:
  assumes "FetchBundle u w1 = FetchBundle u w2" and "url self = u"
  shows "GoogleIndex self w1 = GoogleIndex self w2"
  using arg_cong [OF assms(1), of index_answer] assms(2)
  by (simp add: FetchBundle_def GoogleIndex_def)

lemma StatsReport_same_bundle:
  assumes "FetchBundle u w1 = FetchBundle u w2"
    and "domain self = parsed_domain w1 u" and "domain self = parsed_domain w2 u"
  shows "StatsReport self w1 = StatsReport self w2"
  using arg_cong [OF assms(1), of resolution] assms(2,3)
  by (simp add: FetchBundle_def StatsReport_def)

lemma same_constructed:
  assumes "urlparse w1 u = urlparse w2 u"
    and "FetchBundle u w1 = FetchBundle u w2"
    and "year (date_today w1) = year (date_today w2)"
    and "month (date_today w1) = month (date_today w2)"
  shows "FeatureExtraction u w1 = FeatureExtraction u w2"
proof -
  let ?f = "FeatureExtraction_fetch u w1"
  have f2: "FeatureExtraction_fetch u w2 = ?f"
    using fetch_same_bundle [OF assms(1,2)] by simp
  have d1: "domain ?f = parsed_domain w1 u"
    by (rule domain_fetch)
  have d2: "domain ?f = parsed_domain w2 u"
    using domain_fetch [of u w2] f2 by simp
  have u: "url ?f = u"
    by (rule url_fetch)
  have same: "map (\<lambda>indicator. indicator ?f) (indicators w1)
      = map (\<lambda>indicator. indicator ?f) (indicators w2)"
    by (simp add: indicators_def DNSRecording_def AgeofDomain_same [OF assms(3,4)]
        WebsiteTraffic_same_bundle [OF assms(2) u] PageRank_same_bundle [OF assms(2) d1 d2]
        GoogleIndex_same_bundle [OF assms(2) u] StatsReport_same_bundle [OF assms(2) d1 d2])
  obtain vs1 where vs1: "FeatureExtraction u w1 = Inr (?f\<lparr>features := vs1\<rparr>)"
    "map Inr vs1 = map (\<lambda>indicator. indicator ?f) (indicators w1)"
    using FeatureExtraction_result by blast
  obtain vs2 where vs2: "FeatureExtraction u w2 = Inr (?f\<lparr>features := vs2\<rparr>)"
    "map Inr vs2 = map (\<lambda>indicator. indicator ?f) (indicators w2)"
    using FeatureExtraction_result [of u w2] f2 by auto
  from vs1(2) vs2(2) same have "map Inr vs1 = (map Inr vs2 :: int result list)"
    by simp
  then have "vs1 = vs2"
    by (simp add: inj_map_eq_map)
  with vs1(1) vs2(1) show ?thesis by simp
qed

text \<open>
  C9 (amended).  Two runs on the same normalized URL record, with the same evidence
  fetched for this URL (the same FetchBundle), in the same month of the same year,
  build the same object with the same thirty features, and with the same model the
  pages show the same ClassificationResult, whatever else differs between the two
  worlds (other lookups, the site details, the day of the month).
\<close>

theorem same_evidence_same_result:
  assumes "validate_url w1 (dict_get (form req) ''url'' '''') = Inr u"
    and "validate_url w2 (dict_get (form req) ''url'' '''') = Inr u"
    and "urlparse w1 u = urlparse w2 u"
    and "FetchBundle u w1 = FetchBundle u w2"
    and "year (date_today w1) = year (date_today w2)"
    and "month (date_today w1) = month (date_today w2)"
  shows "FeatureExtraction u w1 = FeatureExtraction u w2
         \<and> (\<exists>page1 page2. index w1 gbc req = Inr page1 \<and> index w2 gbc req = Inr page2
               \<and> ClassificationResult page1 = ClassificationResult page2)"
proof
  show same: "FeatureExtraction u w1 = FeatureExtraction u w2"
    by (rule same_constructed [OF assms(3-6)])
  show "\<exists>page1 page2. index w1 gbc req = Inr page1 \<and> index w2 gbc req = Inr page2
               \<and> ClassificationResult page1 = ClassificationResult page2"
  proof (cases "bind_result (FeatureExtraction u w2)
                  (\<lambda>extractor. classify gbc (getFeaturesList extractor))")
    case (Inl e)
    with assms(1,2) same show ?thesis
      by (auto simp: index_def bind_result_def ClassificationResult_def Let_def)
  next
    case (Inr r)
    obtain pred p where "r = (pred, p)" by (cases r)
    with Inr assms(1,2) same show ?thesis
      by (auto simp: index_def bind_result_def ClassificationResult_def Let_def)
  qed
qed


theorem same_evidence_same_result_witness:
  "validate_url june_world (dict_get (form post_request) ''url'' '''') = Inr ''http://example.com''
   \<and> validate_url late_june_world (dict_get (form post_request) ''url'' '''') = Inr ''http://example.com''
   \<and> urlparse june_world ''http://example.com'' = urlparse late_june_world ''http://example.com''
   \<and> FetchBundle ''http://example.com'' june_world = FetchBundle ''http://example.com'' late_june_world
   \<and> year (date_today june_world) = year (date_today late_june_world)
   \<and> month (date_today june_world) = month (date_today late_june_world)
   \<and> day (date_today june_world) \<noteq> day (date_today late_june_world)
   \<and> status (fetch_url_details june_world ''http://example.com'') = ''offline''
   \<and> status (fetch_url_details late_june_world ''http://example.com'') = ''online''
   \<and> AgeofDomain (FeatureExtraction_fetch ''http://example.com'' late_june_world) late_june_world
       = Inr (- 1)
   \<and> FeatureExtraction ''http://example.com'' june_world
       = FeatureExtraction ''http://example.com'' late_june_world
   \<and> (\<exists>page1 page2. index june_world stub_model post_request = Inr page1
         \<and> index late_june_world stub_model post_request = Inr page2
         \<and> ClassificationResult page1 = ClassificationResult page2)"
proof -
  have a: "validate_url june_world (dict_get (form post_request) ''url'' '''') = Inr ''http://example.com''"
    by code_simp
  have b: "validate_url late_june_world (dict_get (form post_request) ''url'' '''') = Inr ''http://example.com''"
    by code_simp
  have c: "urlparse june_world ''http://example.com'' = urlparse late_june_world ''http://example.com''"
    by code_simp
  have d: "FetchBundle ''http://example.com'' june_world = FetchBundle ''http://example.com'' late_june_world"
    by code_simp
  have e: "year (date_today june_world) = year (date_today late_june_world)"
    by code_simp
  have f: "month (date_today june_world) = month (date_today late_june_world)"
    by code_simp
  have g: "day (date_today june_world) \<noteq> day (date_today late_june_world)"
    by code_simp
  have h: "status (fetch_url_details june_world ''http://example.com'') = ''offline''"
    by code_simp
  have i: "status (fetch_url_details late_june_world ''http://example.com'') = ''online''"
    by code_simp
  have j: "AgeofDomain (FeatureExtraction_fetch ''http://example.com'' late_june_world) late_june_world
       = Inr (- 1)"
    by code_simp
  note r = same_evidence_same_result [OF a b c d e f, of stub_model]
  from a b c d e f g h i j conjunct1 [OF r] conjunct2 [OF r] show ?thesis
    by (intro conjI)
qed

text \<open>
  C9 as stated fails: with the same URL record and the same evidence, the feature
  list of 2025-06-15 differs from that of 2025-07-01, because \<open>AgeofDomain\<close> reads the
  clock.
\<close>

lemma AgeofDomain_june:
  "AgeofDomain (FeatureExtraction_fetch ''http://example.com'' june_world) june_world = Inr (- 1)"
  by code_simp

lemma AgeofDomain_july:
  "AgeofDomain (FeatureExtraction_fetch ''http://example.com'' june_world) july_world = Inr 1"
  by code_simp

theorem clock_counterexample:
  "urlparse june_world ''http://example.com'' = urlparse july_world ''http://example.com''
   \<and> FetchBundle ''http://example.com'' june_world = FetchBundle ''http://example.com'' july_world
   \<and> FeatureExtraction ''http://example.com'' june_world
       \<noteq> FeatureExtraction ''http://example.com'' july_world"
proof (intro conjI)
  let ?u = "''http://example.com''"
  show p: "urlparse june_world ?u = urlparse july_world ?u"
    by code_simp
  show b: "FetchBundle ?u june_world = FetchBundle ?u july_world"
    by code_simp
  let ?fetched = "FeatureExtraction_fetch ?u june_world"
  have fetched: "FeatureExtraction_fetch ?u july_world = ?fetched"
    using fetch_same_bundle [OF p b] by simp
  obtain vs1 where vs1: "FeatureExtraction ?u june_world = Inr (?fetched\<lparr>features := vs1\<rparr>)"
    "map Inr vs1 = map (\<lambda>indicator. indicator ?fetched) (indicators june_world)"
    using FeatureExtraction_result by blast
  obtain vs2 where vs2: "FeatureExtraction ?u july_world = Inr (?fetched\<lparr>features := vs2\<rparr>)"
    "map Inr vs2 = map (\<lambda>indicator. indicator ?fetched) (indicators july_world)"
    using FeatureExtraction_result [of ?u july_world] fetched by auto
  show "FeatureExtraction ?u june_world \<noteq> FeatureExtraction ?u july_world"
  proof
    assume "FeatureExtraction ?u june_world = FeatureExtraction ?u july_world"
    with vs1(1) vs2(1) have "features (?fetched\<lparr>features := vs1\<rparr>) = features (?fetched\<lparr>features := vs2\<rparr>)"
      by simp
    then have "vs1 = vs2" by simp
    with vs1(2) vs2(2) have "map (\<lambda>indicator. indicator ?fetched) (indicators june_world) ! 23
        = map (\<lambda>indicator. indicator ?fetched) (indicators july_world) ! 23"
      by simp
    then have "AgeofDomain ?fetched june_world = AgeofDomain ?fetched july_world"
      by (simp add: indicators_def)
    then show False
      by (simp add: AgeofDomain_june AgeofDomain_july)
  qed
qed

end
